theory Spec2Isabelle
  imports Main
begin

section \<open>Python values used by scrapper.py\<close>

text \<open>
  A Python \<^verbatim>\<open>str\<close> is a sequence of Unicode code points, so slicing and
  \<^verbatim>\<open>strip\<close> count code points.  ASCII literals of the source are written
  with \<open>ascii\<close>; the Cyrillic ones are given by their code points.
\<close>

type_synonym pystr = "nat list"

definition ascii :: "string \<Rightarrow> pystr" where
  "ascii cs = map of_char cs"

subsection \<open>Exceptions\<close>

text \<open>
  The exception classes named in scrapper.py with their place in the class
  hierarchy of Python and Selenium.  \<open>PyException\<close> is the class
  \<^verbatim>\<open>Exception\<close>; its base \<^verbatim>\<open>BaseException\<close> is also the base of
  \<^verbatim>\<open>KeyboardInterrupt\<close>, \<^verbatim>\<open>SystemExit\<close> and \<^verbatim>\<open>GeneratorExit\<close>, which
  are not instances of \<^verbatim>\<open>Exception\<close>.  \<open>Derived n c\<close> is any further class
  named \<open>n\<close> whose base class is \<open>c\<close> (\<^verbatim>\<open>ValueError\<close>, \<^verbatim>\<open>OSError\<close>,
  \<^verbatim>\<open>NoSuchWindowException\<close>, ...).
\<close>

datatype exc_class =
    BaseException
  | KeyboardInterrupt
  | SystemExit
  | GeneratorExit
  | PyException
  | WebDriverException
  | NoSuchElementException
  | TimeoutException
  | StaleElementReferenceException
  | SessionNotCreatedException
  | InvalidElementStateException
  | ElementNotInteractableException
  | TypeError
  | AttributeError
  | LookupError
  | IndexError
  | Derived string exc_class

text \<open>
  The method resolution order of a class: itself, then its bases up to
  \<^verbatim>\<open>BaseException\<close>.
\<close>

fun mro :: "exc_class \<Rightarrow> exc_class list" where
  "mro BaseException = [BaseException]"
| "mro KeyboardInterrupt = [KeyboardInterrupt, BaseException]"
| "mro SystemExit = [SystemExit, BaseException]"
| "mro GeneratorExit = [GeneratorExit, BaseException]"
| "mro PyException = [PyException, BaseException]"
| "mro WebDriverException = [WebDriverException, PyException, BaseException]"
| "mro NoSuchElementException =
     [NoSuchElementException, WebDriverException, PyException, BaseException]"
| "mro TimeoutException = [TimeoutException, WebDriverException, PyException, BaseException]"
| "mro StaleElementReferenceException =
     [StaleElementReferenceException, WebDriverException, PyException, BaseException]"
| "mro SessionNotCreatedException =
     [SessionNotCreatedException, WebDriverException, PyException, BaseException]"
| "mro InvalidElementStateException =
     [InvalidElementStateException, WebDriverException, PyException, BaseException]"
| "mro ElementNotInteractableException =
     [ElementNotInteractableException, InvalidElementStateException,
      WebDriverException, PyException, BaseException]"
| "mro TypeError = [TypeError, PyException, BaseException]"
| "mro AttributeError = [AttributeError, PyException, BaseException]"
| "mro LookupError = [LookupError, PyException, BaseException]"
| "mro IndexError = [IndexError, LookupError, PyException, BaseException]"
| "mro (Derived n c) = Derived n c # mro c"

text \<open>An exception object: its class and the text \<^verbatim>\<open>str(e)\<close>.\<close>

record exc =
  cls :: exc_class
  str_of :: pystr

definition isinstance :: "exc \<Rightarrow> exc_class \<Rightarrow> bool" where
  "isinstance e k = (k \<in> set (mro (cls e)))"

definition mk_exc :: "exc_class \<Rightarrow> string \<Rightarrow> exc" where
  "mk_exc c m = \<lparr>cls = c, str_of = ascii m\<rparr>"

subsection \<open>The logger\<close>

datatype level = DEBUG | INFO | WARNING | ERROR

fun levelno :: "level \<Rightarrow> nat" where
  "levelno DEBUG = 10"
| "levelno INFO = 20"
| "levelno WARNING = 30"
| "levelno ERROR = 40"

subsection \<open>The world a call runs in\<close>

text \<open>
  Selenium objects are handles; what the browser does with them is outside the
  repository.  \<open>api_call\<close> names the calls scrapper.py makes on the browser
  and on \<^verbatim>\<open>time\<close>.
\<close>

datatype driver = Driver nat
datatype element = Element nat

datatype by_strategy = XPATH | CLASS_NAME | CSS_SELECTOR | ID | TAG_NAME

datatype condition =
    presence_of_element_located by_strategy pystr
  | element_to_be_clickable by_strategy pystr
  | presence_of_all_elements_located by_strategy pystr

datatype api_call =
    DriverGet driver pystr
  | DriverFindElements driver by_strategy pystr
  | DriverImplicitlyWait driver nat
  | DriverExecuteScript driver pystr element
  | DriverClose driver
  | DriverQuit driver
  | WaitUntil driver nat condition
  | ElemFindElement element by_strategy pystr
  | ElemFindElements element by_strategy pystr
  | ElemText element
  | ElemGetAttribute element pystr
  | ElemClick element
  | ElemSendKeys element pystr
  | ActionsMoveClickPerform driver element
  | ActionsMovePerform driver element
  | TimeSleep nat

type_synonym csv_row = "pystr option list"

text \<open>
  The state: the browser (opaque, of type \<open>'b\<close>), the records the module logger
  has emitted, the calls made on the browser so far, and the files on disk, a
  CSV file being the list of rows given to \<^verbatim>\<open>writerow\<close>.
\<close>

record 'b world =
  browser :: 'b
  log :: "(level \<times> pystr) list"
  calls :: "api_call list"
  files :: "pystr \<rightharpoonup> csv_row list"

definition world0 :: "unit world" where
  "world0 = \<lparr>browser = (), log = [], calls = [], files = Map.empty\<rparr>"

type_synonym ('a, 'b) prog = "'b world \<Rightarrow> (exc + 'a) \<times> 'b world"

definition pret :: "'a \<Rightarrow> ('a, 'b) prog" where
  "pret x = (\<lambda>s. (Inr x, s))"

definition praise :: "exc \<Rightarrow> ('a, 'b) prog" where
  "praise e = (\<lambda>s. (Inl e, s))"

definition pbind :: "('a, 'b) prog \<Rightarrow> ('a \<Rightarrow> ('c, 'b) prog) \<Rightarrow> ('c, 'b) prog" where
  "pbind m f = (\<lambda>s. case m s of (Inl e, s') \<Rightarrow> (Inl e, s') | (Inr x, s') \<Rightarrow> f x s')"

text \<open>
  \<^verbatim>\<open>logger.setLevel(logging.INFO)\<close>: a record below INFO is dropped, any other
  is appended to the log file.
\<close>

definition logger_log :: "level \<Rightarrow> pystr \<Rightarrow> 'b world \<Rightarrow> 'b world" where
  "logger_log lv m s =
     (if levelno INFO \<le> levelno lv then s\<lparr>log := log s @ [(lv, m)]\<rparr> else s)"

definition plog :: "level \<Rightarrow> pystr \<Rightarrow> (unit, 'b) prog" where
  "plog lv m = (\<lambda>s. (Inr (), logger_log lv m s))"

section \<open>handle_exceptions\<close>

text \<open>
  The decorator: the \<^verbatim>\<open>except\<close> clauses are tried in the order of the source,
  each by \<^verbatim>\<open>isinstance\<close>.  A contained fault makes the wrapper fall off its end,
  which returns \<^verbatim>\<open>None\<close>; the result of the body is \<open>Some v\<close>.  An exception
  that no clause matches, one that is not an instance of \<^verbatim>\<open>Exception\<close>, leaves
  the wrapper as it came.
\<close>

definition handle_exceptions :: "('a, 'b) prog \<Rightarrow> ('a option, 'b) prog" where
  "handle_exceptions func = (\<lambda>s.
     case func s of
       (Inr v, s') \<Rightarrow> (Inr (Some v), s')
     | (Inl e, s') \<Rightarrow>
         if isinstance e NoSuchElementException then
           (Inr None, logger_log ERROR (ascii ''Element not found: '' @ str_of e) s')
         else if isinstance e TimeoutException then
           (Inr None, logger_log ERROR (ascii ''Timeout occurred: '' @ str_of e) s')
         else if isinstance e StaleElementReferenceException then
           (Inr None, logger_log ERROR (ascii ''Stale element reference: '' @ str_of e) s')
         else if isinstance e SessionNotCreatedException then
           (Inr None, logger_log ERROR (ascii ''Session not created: '' @ str_of e) s')
         else if isinstance e InvalidElementStateException then
           (Inr None, logger_log ERROR (ascii ''Invalid element state: '' @ str_of e) s')
         else if isinstance e WebDriverException then
           (Inr None, logger_log ERROR (ascii ''Webdriver exception: '' @ str_of e) s')
         else if isinstance e TypeError then
           (Inr None, logger_log ERROR (ascii ''Webdriver exception: '' @ str_of e) s')
         else if isinstance e AttributeError then
           (Inr None, logger_log ERROR (ascii ''Webdriver exception: '' @ str_of e) s')
         else if isinstance e PyException then
           (Inl e, logger_log ERROR (ascii ''An unexpected error occurred: '' @ str_of e) s')
         else (Inl e, s'))"

text \<open>The transient fault kinds, as the specification lists them.\<close>

definition transient_kinds :: "exc_class list" where
  "transient_kinds =
     [NoSuchElementException, TimeoutException, StaleElementReferenceException,
      SessionNotCreatedException, InvalidElementStateException, WebDriverException,
      TypeError, AttributeError]"

definition transient :: "exc \<Rightarrow> bool" where
  "transient e = (\<exists>k \<in> set transient_kinds. isinstance e k)"

definition error_entries :: "'b world \<Rightarrow> nat" where
  "error_entries s = length (filter (\<lambda>r. fst r = ERROR) (log s))"

section \<open>Exception handling constructs of the source\<close>

text \<open>\<^verbatim>\<open>try: m  except K: h\<close> for a single class \<open>K\<close>.\<close>

definition ptry_except :: "('a, 'b) prog \<Rightarrow> exc_class \<Rightarrow> ('a, 'b) prog \<Rightarrow> ('a, 'b) prog" where
  "ptry_except m k h = (\<lambda>s.
     case m s of
       (Inr v, s') \<Rightarrow> (Inr v, s')
     | (Inl e, s') \<Rightarrow> if isinstance e k then h s' else (Inl e, s'))"

text \<open>
  \<^verbatim>\<open>try: m  finally: return v\<close>: the \<^verbatim>\<open>return\<close> in the \<^verbatim>\<open>finally\<close> clause
  discards whatever \<open>m\<close> returned or raised.
\<close>

definition finally_return :: "('a, 'b) prog \<Rightarrow> 'c \<Rightarrow> ('c, 'b) prog" where
  "finally_return m v = (\<lambda>s. case m s of (r, s') \<Rightarrow> (Inr v, s'))"

subsection \<open>Python operations that raise\<close>

definition none_attr :: "string \<Rightarrow> exc" where
  "none_attr a =
     \<lparr>cls = AttributeError,
      str_of = [39] @ ascii ''NoneType'' @ [39] @ ascii '' object has no attribute '' @
               [39] @ ascii a @ [39]\<rparr>"

text \<open>Attribute access \<^verbatim>\<open>x.a\<close> where \<open>x\<close> may be \<^verbatim>\<open>None\<close>.\<close>

definition attr_of :: "'a option \<Rightarrow> string \<Rightarrow> ('a, 'b) prog" where
  "attr_of x a = (case x of None \<Rightarrow> praise (none_attr a) | Some v \<Rightarrow> pret v)"

text \<open>\<^verbatim>\<open>xs[i]\<close> for a list and an index \<open>i \<ge> 0\<close>.\<close>

definition getitem :: "'a list \<Rightarrow> nat \<Rightarrow> ('a, 'b) prog" where
  "getitem xs i =
     (if i < length xs then pret (xs ! i)
      else praise (mk_exc IndexError ''list index out of range''))"

text \<open>\<^verbatim>\<open>a + b\<close> for a \<^verbatim>\<open>str\<close> \<open>a\<close> and a value \<open>b\<close> that is a \<^verbatim>\<open>str\<close> or \<^verbatim>\<open>None\<close>.\<close>

definition str_add :: "pystr \<Rightarrow> pystr option \<Rightarrow> (pystr, 'b) prog" where
  "str_add a b =
     (case b of
        None \<Rightarrow> praise
          \<lparr>cls = TypeError,
           str_of = ascii ''can only concatenate str (not '' @ [34] @ ascii ''NoneType'' @
                    [34] @ ascii '') to str''\<rparr>
      | Some t \<Rightarrow> pret (a @ t))"

subsection \<open>\<^verbatim>\<open>str.strip\<close> and slicing\<close>

text \<open>The code points for which \<^verbatim>\<open>str.isspace\<close> holds.\<close>

definition isspace :: "nat \<Rightarrow> bool" where
  "isspace c = (c \<in> {9, 10, 11, 12, 13, 28, 29, 30, 31, 32, 133, 160, 5760,
                       8232, 8233, 8239, 8287, 12288} \<or> (8192 \<le> c \<and> c \<le> 8202))"

definition strip :: "pystr \<Rightarrow> pystr" where
  "strip t = rev (dropWhile isspace (rev (dropWhile isspace t)))"

text \<open>\<^verbatim>\<open>t[:-n]\<close> for \<open>n > 0\<close>.\<close>

definition slice_to_minus :: "nat \<Rightarrow> pystr \<Rightarrow> pystr" where
  "slice_to_minus n t = take (length t - n) t"

text \<open>\<^verbatim>\<open>text.strip()[:-2]\<close>, where \<open>text\<close> may be \<^verbatim>\<open>None\<close> (lines 287 and 288).\<close>

definition price_text :: "pystr \<Rightarrow> pystr" where
  "price_text t = slice_to_minus 2 (strip t)"

definition price_field :: "pystr option \<Rightarrow> (pystr, 'b) prog" where
  "price_field text = pbind (attr_of text ''strip'') (\<lambda>t. pret (price_text t))"

subsection \<open>The category pattern\<close>

text \<open>
  \<^verbatim>\<open>re.search(r'category: "([^"]+)"', js_code)\<close>.  At one position the pattern
  matches when the text there starts with \<^verbatim>\<open>category: "\<close>, followed by a
  non-empty run of characters other than the double quote (code point 34), followed by a
  double quote; the repetition is greedy and a shorter run is never followed by a
  quote, so group 1 is the whole run.  \<^verbatim>\<open>re.search\<close> takes the leftmost position
  that matches.  The result is group 1 of the match object, or None.
\<close>

definition category_prefix :: pystr where
  "category_prefix = ascii ''category: '' @ [34]"

definition category_match_at :: "pystr \<Rightarrow> pystr option" where
  "category_match_at t =
     (if take (length category_prefix) t = category_prefix then
        (let rest = drop (length category_prefix) t;
             v = takeWhile (\<lambda>c. c \<noteq> 34) rest
         in if v \<noteq> [] \<and> length v < length rest then Some v else None)
      else None)"

fun re_search_category :: "pystr \<Rightarrow> pystr option" where
  "re_search_category [] = category_match_at []"
| "re_search_category (c # cs) =
     (case category_match_at (c # cs) of
        Some v \<Rightarrow> Some v
      | None \<Rightarrow> re_search_category cs)"

text \<open>
  Lines 276 to 282: \<open>js_code\<close> is what \<^verbatim>\<open>execute_script\<close> returned, a \<^verbatim>\<open>str\<close>
  or not (\<open>None\<close>); \<^verbatim>\<open>re.search\<close> raises TypeError on anything but a string,
  and \<^verbatim>\<open>.group\<close> on a failed search raises the AttributeError that the
  \<^verbatim>\<open>except\<close> clause catches.
\<close>

definition category_field :: "pystr option \<Rightarrow> (pystr, 'b) prog" where
  "category_field js_code =
     ptry_except
       (case js_code of
          None \<Rightarrow> praise (mk_exc TypeError ''expected string or bytes-like object'')
        | Some t \<Rightarrow> attr_of (re_search_category t) ''group'')
       AttributeError
       (pbind (plog WARNING (ascii ''category not found''))
          (\<lambda>_. pret (ascii ''no category'')))"

text \<open>What the specification means by script content containing a match that captures \<open>v\<close>.\<close>

definition category_occurs :: "pystr \<Rightarrow> pystr \<Rightarrow> bool" where
  "category_occurs t v =
     (v \<noteq> [] \<and> 34 \<notin> set v \<and> (\<exists>pre post. t = pre @ category_prefix @ v @ [34] @ post))"

section \<open>The browser\<close>

text \<open>
  The Selenium calls scrapper.py makes, as operations on the browser state.  Each
  returns a value or raises; what it does is the browser's and the site's
  business, so every function of the module takes the browser as a parameter.
  \<open>wait_until_element\<close> and \<open>wait_until_elements\<close> are
  \<^verbatim>\<open>WebDriverWait(driver, timeout).until(condition)\<close> for a condition that
  yields one element or a list of them.
\<close>

record 'b selenium =
  driver_get :: "driver \<Rightarrow> pystr \<Rightarrow> 'b \<Rightarrow> (exc + unit) \<times> 'b"
  driver_find_elements :: "driver \<Rightarrow> by_strategy \<Rightarrow> pystr \<Rightarrow> 'b \<Rightarrow> (exc + element list) \<times> 'b"
  driver_implicitly_wait :: "driver \<Rightarrow> nat \<Rightarrow> 'b \<Rightarrow> (exc + unit) \<times> 'b"
  driver_execute_script :: "driver \<Rightarrow> pystr \<Rightarrow> element \<Rightarrow> 'b \<Rightarrow> (exc + pystr option) \<times> 'b"
  driver_close :: "driver \<Rightarrow> 'b \<Rightarrow> (exc + unit) \<times> 'b"
  driver_quit :: "driver \<Rightarrow> 'b \<Rightarrow> (exc + unit) \<times> 'b"
  wait_until_element :: "driver \<Rightarrow> nat \<Rightarrow> condition \<Rightarrow> 'b \<Rightarrow> (exc + element) \<times> 'b"
  wait_until_elements :: "driver \<Rightarrow> nat \<Rightarrow> condition \<Rightarrow> 'b \<Rightarrow> (exc + element list) \<times> 'b"
  element_find_element :: "element \<Rightarrow> by_strategy \<Rightarrow> pystr \<Rightarrow> 'b \<Rightarrow> (exc + element) \<times> 'b"
  element_find_elements ::
    "element \<Rightarrow> by_strategy \<Rightarrow> pystr \<Rightarrow> 'b \<Rightarrow> (exc + element list) \<times> 'b"
  element_text :: "element \<Rightarrow> 'b \<Rightarrow> (exc + pystr) \<times> 'b"
  element_get_attribute :: "element \<Rightarrow> pystr \<Rightarrow> 'b \<Rightarrow> (exc + pystr option) \<times> 'b"
  element_click :: "element \<Rightarrow> 'b \<Rightarrow> (exc + unit) \<times> 'b"
  element_send_keys :: "element \<Rightarrow> pystr \<Rightarrow> 'b \<Rightarrow> (exc + unit) \<times> 'b"
  actions_move_click_perform :: "driver \<Rightarrow> element \<Rightarrow> 'b \<Rightarrow> (exc + unit) \<times> 'b"
  actions_move_perform :: "driver \<Rightarrow> element \<Rightarrow> 'b \<Rightarrow> (exc + unit) \<times> 'b"
  time_sleep :: "nat \<Rightarrow> 'b \<Rightarrow> 'b"

text \<open>Making a call: the browser answers and the call is recorded.\<close>

definition call :: "api_call \<Rightarrow> ('b \<Rightarrow> (exc + 'a) \<times> 'b) \<Rightarrow> ('a, 'b) prog" where
  "call c op = (\<lambda>s.
     case op (browser s) of (r, b') \<Rightarrow> (r, s\<lparr>browser := b', calls := calls s @ [c]\<rparr>))"

definition sleep :: "'b selenium \<Rightarrow> nat \<Rightarrow> (unit, 'b) prog" where
  "sleep br n = call (TimeSleep n) (\<lambda>b. (Inr (), time_sleep br n b))"

subsection \<open>Module constants\<close>

definition URL_MAIN :: pystr where
  "URL_MAIN = ascii ''https://www.okeydostavka.ru''"


section \<open>go_next_page\<close>

text \<open>
  Lines 97 to 116.  The lookup of the arrow is outside the \<^verbatim>\<open>try\<close>; the
  \<^verbatim>\<open>finally: return driver\<close> discards whatever the \<^verbatim>\<open>try\<close> statement
  raised.  The driver may be \<^verbatim>\<open>None\<close>, as every Python value may.
\<close>

definition go_next_page :: "'b selenium \<Rightarrow> driver option \<Rightarrow> (driver option, 'b) prog" where
  "go_next_page br driver =
     pbind (attr_of driver ''find_elements'') (\<lambda>d.
     pbind (call (DriverFindElements d CLASS_NAME (ascii ''right_arrow''))
              (driver_find_elements br d CLASS_NAME (ascii ''right_arrow''))) (\<lambda>next.
     finally_return
       (ptry_except
          (pbind (getitem next 0) (\<lambda>arrow.
           pbind (call (ElemClick arrow) (element_click br arrow)) (\<lambda>_.
           plog DEBUG (ascii ''press next page''))))
          ElementNotInteractableException
          (plog DEBUG (ascii ''next page dosnt exist'')))
       driver))"

section \<open>find_element\<close>

text \<open>
  \<^verbatim>\<open>WebDriverWait(driver, timeout).until(condition)\<close>: the condition is called
  with the driver and calls \<^verbatim>\<open>driver.find_element\<close> (\<^verbatim>\<open>find_elements\<close> for the
  list condition), which is an AttributeError on \<^verbatim>\<open>None\<close>.
\<close>

definition wait_until :: "'b selenium \<Rightarrow> driver option \<Rightarrow> nat \<Rightarrow> condition \<Rightarrow> (element, 'b) prog" where
  "wait_until br driver timeout cond =
     pbind (attr_of driver ''find_element'') (\<lambda>d.
     call (WaitUntil d timeout cond) (wait_until_element br d timeout cond))"

definition wait_until_all ::
  "'b selenium \<Rightarrow> driver option \<Rightarrow> nat \<Rightarrow> condition \<Rightarrow> (element list, 'b) prog" where
  "wait_until_all br driver timeout cond =
     pbind (attr_of driver ''find_elements'') (\<lambda>d.
     call (WaitUntil d timeout cond) (wait_until_elements br d timeout cond))"

definition find_element_body ::
  "'b selenium \<Rightarrow> driver option \<Rightarrow> pystr \<Rightarrow> pystr \<Rightarrow> (element, 'b) prog" where
  "find_element_body br driver method loc =
     (if method = ascii ''xpath'' then
        wait_until br driver 10 (presence_of_element_located XPATH loc)
      else if method = ascii ''class_name'' then
        wait_until br driver 10 (presence_of_element_located CLASS_NAME loc)
      else if method = ascii ''css_selector'' then
        wait_until br driver 10 (presence_of_element_located CSS_SELECTOR loc)
      else if method = ascii ''id'' then
        wait_until br driver 10 (presence_of_element_located ID loc)
      else if method = ascii ''tag_name'' then
        wait_until br driver 10 (presence_of_element_located TAG_NAME loc)
      else if method = ascii ''delivery'' then
        wait_until br driver 10 (element_to_be_clickable ID loc)
      else praise (mk_exc AttributeError ''invalid name for parametr''))"

definition find_element ::
  "'b selenium \<Rightarrow> driver option \<Rightarrow> pystr \<Rightarrow> pystr \<Rightarrow> (element option, 'b) prog" where
  "find_element br driver method loc =
     handle_exceptions (find_element_body br driver method loc)"

text \<open>The strategies the specification calls recognised.\<close>

definition recognized_strategies :: "pystr list" where
  "recognized_strategies =
     [ascii ''xpath'', ascii ''class_name'', ascii ''css_selector'', ascii ''id'',
      ascii ''tag_name'', ascii ''delivery'']"

section \<open>click_element and close_driver\<close>

text \<open>
  \<^verbatim>\<open>ActionChains(driver).move_to_element(element).click().perform()\<close>.  The
  element is what \<open>find_element\<close> returned, so it may be \<^verbatim>\<open>None\<close>:
  \<^verbatim>\<open>move_to_element\<close> then raises AttributeError before anything is asked of
  the browser.  The driver is first used by \<^verbatim>\<open>perform\<close>, which calls its
  \<^verbatim>\<open>execute\<close>.
\<close>

definition click_element_body ::
  "'b selenium \<Rightarrow> driver option \<Rightarrow> element option \<Rightarrow> (unit, 'b) prog" where
  "click_element_body br driver element =
     pbind (case element of
              None \<Rightarrow> praise (mk_exc AttributeError ''move_to requires a WebElement'')
            | Some el \<Rightarrow> pret el) (\<lambda>el.
     pbind (attr_of driver ''execute'') (\<lambda>d.
     call (ActionsMoveClickPerform d el) (actions_move_click_perform br d el)))"

definition click_element ::
  "'b selenium \<Rightarrow> driver option \<Rightarrow> element option \<Rightarrow> (unit option, 'b) prog" where
  "click_element br driver element = handle_exceptions (click_element_body br driver element)"

definition close_driver_body :: "'b selenium \<Rightarrow> driver option \<Rightarrow> (unit, 'b) prog" where
  "close_driver_body br driver =
     pbind (attr_of driver ''close'') (\<lambda>d.
     pbind (call (DriverClose d) (driver_close br d)) (\<lambda>_.
     call (DriverQuit d) (driver_quit br d)))"

definition close_driver :: "'b selenium \<Rightarrow> driver option \<Rightarrow> (unit option, 'b) prog" where
  "close_driver br driver = handle_exceptions (close_driver_body br driver)"

section \<open>select_delivery_address\<close>




section \<open>parse_products\<close>

text \<open>
  Lines 266 to 288, the body of the loop over the cards up to the finished record.
  \<open>prod_el\<close> is the loop variable \<^verbatim>\<open>prod\<close> of the source;
  \<^verbatim>\<open>prod.find_element\<close> is the method of the element, not the wrapped function
  of the module, and nothing in the loop body catches its exceptions.
\<close>

definition extract_card :: "'b selenium \<Rightarrow> driver option \<Rightarrow> element \<Rightarrow> (csv_row, 'b) prog" where
  "extract_card br driver prod_el =
     pbind (call (ElemFindElement prod_el TAG_NAME (ascii ''a''))
              (element_find_element br prod_el TAG_NAME (ascii ''a''))) (\<lambda>a.
     pbind (call (ElemText a) (element_text br a)) (\<lambda>name.
     pbind (call (ElemGetAttribute a (ascii ''href''))
              (element_get_attribute br a (ascii ''href''))) (\<lambda>href.
     pbind (call (ElemFindElement prod_el TAG_NAME (ascii ''img''))
              (element_find_element br prod_el TAG_NAME (ascii ''img''))) (\<lambda>img_url.
     pbind (call (ElemGetAttribute img_url (ascii ''data-src''))
              (element_get_attribute br img_url (ascii ''data-src''))) (\<lambda>data_src.
     pbind (str_add URL_MAIN data_src) (\<lambda>image.
     pbind (call (ElemFindElement prod_el TAG_NAME (ascii ''script''))
              (element_find_element br prod_el TAG_NAME (ascii ''script''))) (\<lambda>el.
     pbind (attr_of driver ''execute_script'') (\<lambda>d.
     pbind (call (DriverExecuteScript d (ascii ''return arguments[0].innerHTML;'') el)
              (driver_execute_script br d (ascii ''return arguments[0].innerHTML;'') el))
       (\<lambda>js_code.
     pbind (category_field js_code) (\<lambda>category.
     pbind (call (ElemFindElement prod_el CLASS_NAME (ascii ''product-price''))
              (element_find_element br prod_el CLASS_NAME (ascii ''product-price''))) (\<lambda>div_price.
     pbind (call (ElemFindElements div_price TAG_NAME (ascii ''span''))
              (element_find_elements br div_price TAG_NAME (ascii ''span''))) (\<lambda>prices.
     pbind (getitem prices 0) (\<lambda>p0.
     pbind (call (ElemGetAttribute p0 (ascii ''textContent''))
              (element_get_attribute br p0 (ascii ''textContent''))) (\<lambda>full_price.
     pbind (getitem prices 1) (\<lambda>p1.
     pbind (call (ElemGetAttribute p1 (ascii ''textContent''))
              (element_get_attribute br p1 (ascii ''textContent''))) (\<lambda>price.
     pbind (price_field full_price) (\<lambda>full.
     pbind (price_field price) (\<lambda>disc.
     pret [Some name, href, Some image, Some category, Some full, Some disc]
     ))))))))))))))))))"

text \<open>The loop over the cards of one page (lines 265 to 290).\<close>

fun cards_loop ::
  "'b selenium \<Rightarrow> driver option \<Rightarrow> element list \<Rightarrow> csv_row list \<Rightarrow> (csv_row list, 'b) prog" where
  "cards_loop br driver [] products_main = pret products_main"
| "cards_loop br driver (prod_el # cards) products_main =
     pbind (extract_card br driver prod_el) (\<lambda>lst.
     pbind (plog INFO (ascii ''products added to main list'')) (\<lambda>_.
     cards_loop br driver cards (products_main @ [lst])))"

text \<open>One turn of the loop over the pages (lines 259 to 292).\<close>

definition find_cards :: "'b selenium \<Rightarrow> driver option \<Rightarrow> (element list, 'b) prog" where
  "find_cards br driver =
     wait_until_all br driver 10
       (presence_of_all_elements_located CLASS_NAME (ascii ''product.ok-theme''))"

definition page_body ::
  "'b selenium \<Rightarrow> driver option \<Rightarrow> csv_row list \<Rightarrow> (driver option \<times> csv_row list, 'b) prog" where
  "page_body br driver products_main =
     pbind (find_cards br driver) (\<lambda>cards.
     pbind (plog DEBUG (ascii ''find products cards'')) (\<lambda>_.
     pbind (cards_loop br driver cards products_main) (\<lambda>products'.
     pbind (go_next_page br driver) (\<lambda>driver'.
     pbind (sleep br 5) (\<lambda>_.
     pret (driver', products'))))))"

fun pages_loop ::
  "'b selenium \<Rightarrow> nat \<Rightarrow> driver option \<Rightarrow> csv_row list \<Rightarrow>
     (driver option \<times> csv_row list, 'b) prog" where
  "pages_loop br 0 driver products_main = pret (driver, products_main)"
| "pages_loop br (Suc n) driver products_main =
     pbind (page_body br driver products_main) (\<lambda>(driver', products').
     pages_loop br n driver' products')"

text \<open>One turn of the loop over the categories (lines 253 to 292).\<close>

definition category_xpath :: "pystr \<Rightarrow> pystr" where
  "category_xpath cat = ascii ''//div[contains(text(),'' @ [39] @ cat @ [39] @ ascii '')]''"

text \<open>Lines 253 to 257: going to the category.\<close>

definition category_enter :: "'b selenium \<Rightarrow> driver option \<Rightarrow> pystr \<Rightarrow> (unit, 'b) prog" where
  "category_enter br driver cat =
     pbind (attr_of driver ''get'') (\<lambda>d.
     pbind (call (DriverGet d URL_MAIN) (driver_get br d URL_MAIN)) (\<lambda>_.
     pbind (find_element br driver (ascii ''xpath'') (category_xpath cat)) (\<lambda>entry.
     pbind (click_element br driver entry) (\<lambda>_.
     pbind (plog DEBUG (ascii ''find category'')) (\<lambda>_.
     call (DriverImplicitlyWait d 15) (driver_implicitly_wait br d 15))))))"

definition category_body ::
  "'b selenium \<Rightarrow> nat \<Rightarrow> driver option \<Rightarrow> pystr \<Rightarrow> csv_row list \<Rightarrow>
     (driver option \<times> csv_row list, 'b) prog" where
  "category_body br pages driver cat products_main =
     pbind (category_enter br driver cat) (\<lambda>_.
     pages_loop br pages driver products_main)"

fun categories_loop ::
  "'b selenium \<Rightarrow> nat \<Rightarrow> driver option \<Rightarrow> pystr list \<Rightarrow> csv_row list \<Rightarrow>
     (driver option \<times> csv_row list, 'b) prog" where
  "categories_loop br pages driver [] products_main = pret (driver, products_main)"
| "categories_loop br pages driver (cat # categories) products_main =
     pbind (category_body br pages driver cat products_main) (\<lambda>(driver', products').
     categories_loop br pages driver' categories products')"

text \<open>
  The body of parse_products; \<^verbatim>\<open>range(pages)\<close> is empty for a negative
  \<open>pages\<close>.
\<close>

definition parse_products_body ::
  "'b selenium \<Rightarrow> driver option \<Rightarrow> pystr list \<Rightarrow> int \<Rightarrow> (csv_row list, 'b) prog" where
  "parse_products_body br driver categories pages =
     pbind (categories_loop br (nat pages) driver categories []) (\<lambda>(driver', products_main).
     pbind (plog DEBUG (ascii ''add products in main list'')) (\<lambda>_.
     pbind (close_driver br driver') (\<lambda>_.
     pbind (plog DEBUG (ascii ''close driver'')) (\<lambda>_.
     pret products_main))))"

definition parse_products ::
  "'b selenium \<Rightarrow> driver option \<Rightarrow> pystr list \<Rightarrow> int \<Rightarrow> (csv_row list option, 'b) prog" where
  "parse_products br driver categories pages =
     handle_exceptions (parse_products_body br driver categories pages)"

text \<open>The number of \<^verbatim>\<open>driver.close()\<close> calls made so far.\<close>

fun is_close :: "api_call \<Rightarrow> bool" where
  "is_close (DriverClose d) = True"
| "is_close c = False"

definition close_calls :: "'b world \<Rightarrow> nat" where
  "close_calls s = length (filter is_close (calls s))"


section \<open>save_to_csv\<close>

text \<open>
  Opening with mode \<^verbatim>\<open>'w'\<close> truncates the file; the medium is taken to be
  writable.  A field is a \<^verbatim>\<open>str\<close> or \<^verbatim>\<open>None\<close>, and \<^verbatim>\<open>writerow\<close> hands
  the whole row to the file as one line of text.  The file was opened with
  \<^verbatim>\<open>encoding='utf-8'\<close>, which has no encoding for a surrogate code point
  (U+D800 to U+DFFF): a row with such a field raises UnicodeEncodeError and
  nothing of it reaches the file; any other row is appended.
\<close>

definition csv_file :: pystr where
  "csv_file = ascii ''products.csv''"

definition open_w :: "pystr \<Rightarrow> (unit, 'b) prog" where
  "open_w name = (\<lambda>s. (Inr (), s\<lparr>files := (files s)(name \<mapsto> [])\<rparr>))"

definition is_surrogate :: "nat \<Rightarrow> bool" where
  "is_surrogate c = (55296 \<le> c \<and> c \<le> 57343)"

definition utf8_encodable :: "pystr \<Rightarrow> bool" where
  "utf8_encodable t = list_all (\<lambda>c. \<not> is_surrogate c) t"

definition row_encodable :: "csv_row \<Rightarrow> bool" where
  "row_encodable row =
     list_all (\<lambda>field. case field of None \<Rightarrow> True | Some t \<Rightarrow> utf8_encodable t) row"

text \<open>
  \<^verbatim>\<open>UnicodeEncodeError\<close> derives from \<^verbatim>\<open>UnicodeError\<close>, that from
  \<^verbatim>\<open>ValueError\<close>; the text of the exception is abridged to its reason.
\<close>

definition unicode_encode_error :: exc where
  "unicode_encode_error =
     \<lparr>cls = Derived ''UnicodeEncodeError''
              (Derived ''UnicodeError'' (Derived ''ValueError'' PyException)),
      str_of = ascii ''surrogates not allowed''\<rparr>"

definition writerow :: "pystr \<Rightarrow> csv_row \<Rightarrow> (unit, 'b) prog" where
  "writerow name row = (\<lambda>s.
     if row_encodable row then
       (Inr (), s\<lparr>files := (files s)(name \<mapsto>
          (case files s name of None \<Rightarrow> [row] | Some rows \<Rightarrow> rows @ [row]))\<rparr>)
     else (Inl unicode_encode_error, s))"

text \<open>The header of line 310, by code points.\<close>

definition header :: csv_row where
  "header =
     [Some [1053, 1072, 1080, 1084, 1077, 1085, 1086, 1074, 1072, 1085, 1080, 1077],
      Some [85, 114, 108, 95, 1090, 1086, 1074, 1072, 1088, 1072],
      Some [85, 114, 108, 95, 1080, 1079, 1086, 1073, 1088, 1072, 1078, 1077, 1085, 1080, 1103],
      Some [1050, 1072, 1090, 1077, 1075, 1086, 1088, 1080, 1103],
      Some [1055, 1086, 1083, 1085, 1072, 1103, 32, 1094, 1077, 1085, 1072],
      Some [1062, 1077, 1085, 1072, 32, 1089, 1086, 1089, 1082, 1080, 1076, 1082, 1086, 1081]]"

text \<open>
  The header as the specification gives it; only the last name differs, by the
  space (code point 32) after its seventh character.
\<close>

definition spec_header :: csv_row where
  "spec_header =
     [Some [1053, 1072, 1080, 1084, 1077, 1085, 1086, 1074, 1072, 1085, 1080, 1077],
      Some [85, 114, 108, 95, 1090, 1086, 1074, 1072, 1088, 1072],
      Some [85, 114, 108, 95, 1080, 1079, 1086, 1073, 1088, 1072, 1078, 1077, 1085, 1080, 1103],
      Some [1050, 1072, 1090, 1077, 1075, 1086, 1088, 1080, 1103],
      Some [1055, 1086, 1083, 1085, 1072, 1103, 32, 1094, 1077, 1085, 1072],
      Some [1062, 1077, 1085, 1072, 32, 1089, 1086, 32, 1089, 1082, 1080, 1076, 1082, 1086, 1081]]"

fun write_rows :: "pystr \<Rightarrow> csv_row list \<Rightarrow> (unit, 'b) prog" where
  "write_rows name [] = pret ()"
| "write_rows name (row # rows) = pbind (writerow name row) (\<lambda>_. write_rows name rows)"

text \<open>\<open>products\<close> is what parse_products returned: a list, or \<^verbatim>\<open>None\<close>.\<close>

definition none_not_iterable :: exc where
  "none_not_iterable =
     \<lparr>cls = TypeError,
      str_of = [39] @ ascii ''NoneType'' @ [39] @ ascii '' object is not iterable''\<rparr>"

definition save_to_csv_body :: "csv_row list option \<Rightarrow> (unit, 'b) prog" where
  "save_to_csv_body products =
     pbind (open_w csv_file) (\<lambda>_.
     pbind (writerow csv_file header) (\<lambda>_.
     (case products of
        None \<Rightarrow> praise none_not_iterable
      | Some rows \<Rightarrow> write_rows csv_file rows)))"

definition save_to_csv :: "csv_row list option \<Rightarrow> (unit option, 'b) prog" where
  "save_to_csv products = handle_exceptions (save_to_csv_body products)"

section \<open>A browser to run the module on\<close>

text \<open>
  A site with one page of three cards (elements 1, 2 and 3) and no next arrow.
  A card \<open>n\<close> has the parts \<open>10 n + 1\<close> (anchor), \<open>10 n + 2\<close> (image),
  \<open>10 n + 3\<close> (script) and \<open>10 n + 4\<close> (price), the price the two spans
  \<open>100 n + 1\<close> and \<open>100 n + 2\<close>.  The parameters make it fail: \<open>stale\<close> is a
  card whose parts have gone stale, \<open>late\<close> makes every wait for a clickable
  control time out, \<open>dead\<close> makes the lookup of elements on the driver fail.
\<close>

definition stale_exc :: exc where
  "stale_exc = mk_exc StaleElementReferenceException ''stale element reference''"

definition shop :: "element option \<Rightarrow> bool \<Rightarrow> bool \<Rightarrow> unit selenium" where
  "shop stale late dead =
     \<lparr>driver_get = (\<lambda>d u b. (Inr (), b)),
      driver_find_elements = (\<lambda>d by loc b.
        if dead then (Inl (mk_exc WebDriverException ''invalid session id''), b)
        else (Inr [], b)),
      driver_implicitly_wait = (\<lambda>d n b. (Inr (), b)),
      driver_execute_script = (\<lambda>d script el b.
        (Inr (Some (ascii ''{category: '' @ [34] @ ascii ''Snacks'' @ [34] @ ascii ''}'')), b)),
      driver_close = (\<lambda>d b. (Inr (), b)),
      driver_quit = (\<lambda>d b. (Inr (), b)),
      wait_until_element = (\<lambda>d t c b.
        case c of
          element_to_be_clickable by loc \<Rightarrow>
            if late then (Inl (mk_exc TimeoutException ''Message: ''), b)
            else (Inr (Element 9), b)
        | _ \<Rightarrow> (Inr (Element 8), b)),
      wait_until_elements = (\<lambda>d t c b. (Inr [Element 1, Element 2, Element 3], b)),
      element_find_element = (\<lambda>el by loc b.
        if Some el = stale then
          (Inl stale_exc, b)
        else
          (case el of Element n \<Rightarrow>
             (Inr (Element (10 * n +
                (if loc = ascii ''a'' then 1 else if loc = ascii ''img'' then 2
                 else if loc = ascii ''script'' then 3 else 4))), b))),
      element_find_elements = (\<lambda>el by loc b.
        case el of Element n \<Rightarrow> (Inr [Element (100 * n + 1), Element (100 * n + 2)], b)),
      element_text = (\<lambda>el b. (Inr (ascii ''Chips''), b)),
      element_get_attribute = (\<lambda>el name b.
        if name = ascii ''textContent'' then (Inr (Some (ascii ''1234,56 '' @ [8372])), b)
        else (Inr (Some (ascii ''/p'')), b)),
      element_click = (\<lambda>el b. (Inr (), b)),
      element_send_keys = (\<lambda>el keys b. (Inr (), b)),
      actions_move_click_perform = (\<lambda>d el b. (Inr (), b)),
      actions_move_perform = (\<lambda>d el b. (Inr (), b)),
      time_sleep = (\<lambda>n b. b)\<rparr>"

text \<open>The record the shop yields for each of its cards.\<close>

definition shop_row :: csv_row where
  "shop_row =
     [Some (ascii ''Chips''), Some (ascii ''/p''), Some (URL_MAIN @ ascii ''/p''),
      Some (ascii ''Snacks''), Some (ascii ''1234,56''), Some (ascii ''1234,56'')]"

section \<open>Properties of the wrapper\<close>

lemma mro_transient_kind:
  "k \<in> set (mro c) \<Longrightarrow> k \<in> set transient_kinds \<Longrightarrow> PyException \<in> set (mro c)"
  by (induction c) (auto simp add: transient_kinds_def)

lemma transient_isinstance_PyException: "transient e \<Longrightarrow> isinstance e PyException"
  unfolding transient_def isinstance_def using mro_transient_kind by blast

lemma error_entries_logger_error:
  "error_entries (logger_log ERROR m s) = Suc (error_entries s)"
  by (simp add: error_entries_def logger_log_def)

text \<open>
  C1, as the code has it.  Whenever the wrapped body raises: a fault of a
  transient kind (an instance of one of the eight listed classes) is logged,
  with one error record ending in the text of the fault, and the call returns
  None without raising; a fault of any other kind that is an instance of
  \<^verbatim>\<open>Exception\<close> gets exactly one error record and is raised again, the same
  exception object; an exception that is not an instance of \<^verbatim>\<open>Exception\<close>
  (\<^verbatim>\<open>KeyboardInterrupt\<close>, \<^verbatim>\<open>SystemExit\<close>) leaves the wrapper with nothing
  logged.  Nothing but the one record changes in the state the body left.
\<close>

theorem handle_exceptions_contains_or_reraises:
  assumes "func s = (Inl e, s')"
  shows "(transient e \<longrightarrow>
            (\<exists>p. handle_exceptions func s =
                    (Inr None, s'\<lparr>log := log s' @ [(ERROR, p @ str_of e)]\<rparr>))) \<and>
         (\<not> transient e \<and> isinstance e PyException \<longrightarrow>
            handle_exceptions func s =
              (Inl e, s'\<lparr>log := log s' @
                 [(ERROR, ascii ''An unexpected error occurred: '' @ str_of e)]\<rparr>)) \<and>
         (isinstance e PyException \<longrightarrow>
            error_entries (snd (handle_exceptions func s)) = Suc (error_entries s')) \<and>
         (\<not> isinstance e PyException \<longrightarrow> handle_exceptions func s = (Inl e, s'))"
proof -
  have "transient e \<Longrightarrow> \<exists>p. handle_exceptions func s =
          (Inr None, s'\<lparr>log := log s' @ [(ERROR, p @ str_of e)]\<rparr>)"
    using assms
    by (auto simp add: handle_exceptions_def transient_def transient_kinds_def logger_log_def)
  moreover have "\<not> transient e \<Longrightarrow> isinstance e PyException \<Longrightarrow> handle_exceptions func s =
          (Inl e, s'\<lparr>log := log s' @
             [(ERROR, ascii ''An unexpected error occurred: '' @ str_of e)]\<rparr>)"
    using assms
    by (simp add: handle_exceptions_def transient_def transient_kinds_def logger_log_def)
  moreover have "isinstance e PyException \<Longrightarrow>
      error_entries (snd (handle_exceptions func s)) = Suc (error_entries s')"
    using assms
    by (simp add: handle_exceptions_def error_entries_logger_error)
  moreover have "handle_exceptions func s = (Inl e, s')" if n: "\<not> isinstance e PyException"
  proof -
    from n have "\<not> transient e" using transient_isinstance_PyException by blast
    with n assms show ?thesis
      by (simp add: handle_exceptions_def transient_def transient_kinds_def)
  qed
  ultimately show ?thesis by blast
qed

theorem handle_exceptions_contains_or_reraises_witness:
  "(let s = \<lparr>browser = (), log = [], calls = [], files = Map.empty\<rparr>;
        stale = mk_exc StaleElementReferenceException ''gone'';
        other = mk_exc IndexError ''list index out of range'';
        exit = mk_exc SystemExit ''0''
    in fst (handle_exceptions (praise stale :: (unit, unit) prog) s) = Inr None \<and>
       map fst (log (snd (handle_exceptions (praise stale :: (unit, unit) prog) s))) = [ERROR] \<and>
       fst (handle_exceptions (praise other :: (unit, unit) prog) s) = Inl other \<and>
       map fst (log (snd (handle_exceptions (praise other :: (unit, unit) prog) s))) = [ERROR] \<and>
       handle_exceptions (praise exit :: (unit, unit) prog) s = (Inl exit, s))"
proof -
  define s :: "unit world" where "s = \<lparr>browser = (), log = [], calls = [], files = Map.empty\<rparr>"
  define stale where "stale = mk_exc StaleElementReferenceException ''gone''"
  define other where "other = mk_exc IndexError ''list index out of range''"
  define exit where "exit = mk_exc SystemExit ''0''"
  have t1: "transient stale"
    by (simp add: transient_def transient_kinds_def isinstance_def stale_def mk_exc_def)
  have t2: "\<not> transient other" "isinstance other PyException"
    by (simp_all add: transient_def transient_kinds_def isinstance_def other_def mk_exc_def)
  have t3: "\<not> isinstance exit PyException"
    by (simp add: isinstance_def exit_def mk_exc_def)
  have r1: "(praise stale :: (unit, unit) prog) s = (Inl stale, s)"
    by (simp add: praise_def)
  have r2: "(praise other :: (unit, unit) prog) s = (Inl other, s)"
    by (simp add: praise_def)
  have r3: "(praise exit :: (unit, unit) prog) s = (Inl exit, s)"
    by (simp add: praise_def)
  from handle_exceptions_contains_or_reraises [of "praise stale" s stale s] r1 t1
  obtain p where a: "handle_exceptions (praise stale :: (unit, unit) prog) s =
      (Inr None, s\<lparr>log := log s @ [(ERROR, p @ str_of stale)]\<rparr>)"
    by blast
  from handle_exceptions_contains_or_reraises [of "praise other" s other s] r2 t2
  have b: "handle_exceptions (praise other :: (unit, unit) prog) s =
      (Inl other, s\<lparr>log := log s @
         [(ERROR, ascii ''An unexpected error occurred: '' @ str_of other)]\<rparr>)"
    by blast
  from handle_exceptions_contains_or_reraises [of "praise exit" s exit s] r3 t3
  have c: "handle_exceptions (praise exit :: (unit, unit) prog) s = (Inl exit, s)"
    by blast
  show ?thesis
    unfolding Let_def s_def [symmetric] stale_def [symmetric] other_def [symmetric]
      exit_def [symmetric]
    by (simp add: a b c) (simp add: s_def)
qed

text \<open>
  A body interrupted from the keyboard raises \<^verbatim>\<open>KeyboardInterrupt\<close>, which is
  none of the transient kinds; the wrapper lets it through and logs nothing.
\<close>

theorem handle_exceptions_KeyboardInterrupt_counterexample:
  "\<not> transient (mk_exc KeyboardInterrupt '''') \<and>
   fst (handle_exceptions (praise (mk_exc KeyboardInterrupt '''') :: (unit, unit) prog) world0) =
     Inl (mk_exc KeyboardInterrupt '''') \<and>
   error_entries
     (snd (handle_exceptions (praise (mk_exc KeyboardInterrupt '''') :: (unit, unit) prog)
        world0)) = 0"
  by (simp add: transient_def transient_kinds_def isinstance_def mk_exc_def
      handle_exceptions_def praise_def error_entries_def world0_def)

section \<open>Price text and category label\<close>










lemma category_match_at_iff:
  "category_match_at t = Some v \<longleftrightarrow>
     v \<noteq> [] \<and> 34 \<notin> set v \<and> (\<exists>post. t = category_prefix @ v @ [34] @ post)"
proof
  assume h: "category_match_at t = Some v"
  define rest where "rest = drop (length category_prefix) t"
  from h have p: "take (length category_prefix) t = category_prefix"
    and v: "v = takeWhile (\<lambda>c. c \<noteq> 34) rest" and ne: "v \<noteq> []" and lt: "length v < length rest"
    by (auto simp: category_match_at_def Let_def rest_def split: if_splits)
  have t: "t = category_prefix @ rest"
    using p unfolding rest_def by (metis append_take_drop_id)
  have r: "rest = v @ dropWhile (\<lambda>c. c \<noteq> 34) rest" by (simp add: v)
  have d: "dropWhile (\<lambda>c. c \<noteq> 34) rest \<noteq> []"
  proof
    assume "dropWhile (\<lambda>c. c \<noteq> 34) rest = []"
    then have "length (takeWhile (\<lambda>c. c \<noteq> 34) rest) = length rest"
      by (metis append_Nil2 takeWhile_dropWhile_id)
    with lt v show False by simp
  qed
  then have "hd (dropWhile (\<lambda>c. c \<noteq> 34) rest) = 34"
    using hd_dropWhile [of "\<lambda>c. c \<noteq> 34" rest] by simp
  with d obtain post where "dropWhile (\<lambda>c. c \<noteq> 34) rest = 34 # post"
    by (cases "dropWhile (\<lambda>c. c \<noteq> 34) rest") auto
  with r t have "t = category_prefix @ v @ [34] @ post" by simp
  moreover have "34 \<notin> set v" unfolding v by (metis (mono_tags, lifting) set_takeWhileD)
  ultimately show "v \<noteq> [] \<and> 34 \<notin> set v \<and> (\<exists>post. t = category_prefix @ v @ [34] @ post)"
    using ne by blast
next
  assume "v \<noteq> [] \<and> 34 \<notin> set v \<and> (\<exists>post. t = category_prefix @ v @ [34] @ post)"
  then obtain post where ne: "v \<noteq> []" and nq: "34 \<notin> set v"
    and t: "t = category_prefix @ v @ [34] @ post" by blast
  have "takeWhile (\<lambda>c. c \<noteq> 34) (v @ 34 # post) = v"
    using nq by (auto simp add: takeWhile_tail)
  then show "category_match_at t = Some v"
    using ne by (simp add: category_match_at_def t)
qed

lemma re_search_category_Some:
  "re_search_category t = Some v \<Longrightarrow> category_occurs t v"
proof (induction t)
  case Nil
  then show ?case by (simp add: category_match_at_def category_prefix_def)
next
  case (Cons c cs)
  show ?case
  proof (cases "category_match_at (c # cs)")
    case None
    with Cons have "category_occurs cs v" by simp
    then obtain pre post where "v \<noteq> []" "34 \<notin> set v"
      "cs = pre @ category_prefix @ v @ [34] @ post"
      unfolding category_occurs_def by blast
    then have "c # cs = (c # pre) @ category_prefix @ v @ [34] @ post" by simp
    with \<open>v \<noteq> []\<close> \<open>34 \<notin> set v\<close> show ?thesis unfolding category_occurs_def by blast
  next
    case (Some w)
    with Cons.prems have "w = v" by simp
    with Some have "category_match_at (c # cs) = Some v" by simp
    then have "v \<noteq> [] \<and> 34 \<notin> set v \<and>
        (\<exists>post. c # cs = [] @ category_prefix @ v @ [34] @ post)"
      by (simp add: category_match_at_iff)
    then show ?thesis unfolding category_occurs_def by blast
  qed
qed

lemma re_search_category_None:
  "re_search_category t = None \<Longrightarrow> \<not> category_occurs t v"
proof (induction t)
  case Nil
  then show ?case by (simp add: category_occurs_def category_prefix_def)
next
  case (Cons c cs)
  from Cons.prems have m: "category_match_at (c # cs) = None"
    and r: "re_search_category cs = None"
    by (auto split: option.splits)
  show ?case
  proof
    assume "category_occurs (c # cs) v"
    then obtain pre post where ne: "v \<noteq> []" and nq: "34 \<notin> set v"
      and t: "c # cs = pre @ category_prefix @ v @ [34] @ post"
      unfolding category_occurs_def by blast
    show False
    proof (cases pre)
      case Nil
      with t ne nq have "category_match_at (c # cs) = Some v"
        by (simp add: category_match_at_iff)
      with m show False by simp
    next
      case (Cons a pre')
      with t have "cs = pre' @ category_prefix @ v @ [34] @ post" by simp
      with ne nq have "category_occurs cs v" unfolding category_occurs_def by blast
      with Cons.IH [OF r] show False by simp
    qed
  qed
qed

lemma category_field_Some:
  "re_search_category t = Some v \<Longrightarrow> category_field (Some t) s = (Inr v, s)"
  by (simp add: category_field_def ptry_except_def attr_of_def pret_def)

lemma category_field_None:
  "re_search_category t = None \<Longrightarrow>
   category_field (Some t) s =
     (Inr (ascii ''no category''), s\<lparr>log := log s @ [(WARNING, ascii ''category not found'')]\<rparr>)"
  by (simp add: category_field_def ptry_except_def attr_of_def pret_def praise_def
      none_attr_def isinstance_def pbind_def plog_def logger_log_def)

text \<open>
  C7.  Script content \<^verbatim>\<open>category: "Snacks"\<close> gives the field \<^verbatim>\<open>Snacks\<close> and
  logs nothing.  For any script text: when it contains a match of the pattern, the
  field is the value captured by a match (the leftmost one) and nothing is logged;
  when it contains none, the field is \<^verbatim>\<open>no category\<close> and exactly one record,
  a warning, is added to the log.
\<close>

theorem category_field_extracts:
  "category_field (Some (ascii ''category: '' @ [34] @ ascii ''Snacks'' @ [34])) s =
     (Inr (ascii ''Snacks''), s) \<and>
   ((\<exists>v. category_occurs t v) \<longrightarrow>
      (\<exists>v. category_occurs t v \<and> category_field (Some t) s = (Inr v, s))) \<and>
   ((\<nexists>v. category_occurs t v) \<longrightarrow>
      category_field (Some t) s =
        (Inr (ascii ''no category''),
         s\<lparr>log := log s @ [(WARNING, ascii ''category not found'')]\<rparr>))"
proof (intro conjI impI)
  have "re_search_category (ascii ''category: '' @ [34] @ ascii ''Snacks'' @ [34]) =
        Some (ascii ''Snacks'')"
    by (simp add: ascii_def category_match_at_def category_prefix_def)
  then show "category_field (Some (ascii ''category: '' @ [34] @ ascii ''Snacks'' @ [34])) s =
     (Inr (ascii ''Snacks''), s)"
    by (rule category_field_Some)
next
  assume "\<exists>v. category_occurs t v"
  then obtain w where w: "category_occurs t w" by blast
  show "\<exists>v. category_occurs t v \<and> category_field (Some t) s = (Inr v, s)"
  proof (cases "re_search_category t")
    case None
    with w show ?thesis using re_search_category_None by blast
  next
    case (Some v)
    then show ?thesis using re_search_category_Some category_field_Some by blast
  qed
next
  assume n: "\<nexists>v. category_occurs t v"
  have "re_search_category t = None"
  proof (cases "re_search_category t")
    case (Some v)
    with n show ?thesis using re_search_category_Some by blast
  qed simp
  then show "category_field (Some t) s =
        (Inr (ascii ''no category''),
         s\<lparr>log := log s @ [(WARNING, ascii ''category not found'')]\<rparr>)"
    by (rule category_field_None)
qed

theorem category_field_extracts_witness:
  "category_occurs (ascii ''push({category: '' @ [34] @ ascii ''Snacks'' @ [34] @ ascii '', id: 7})'')
     (ascii ''Snacks'') \<and>
   category_field
     (Some (ascii ''push({category: '' @ [34] @ ascii ''Snacks'' @ [34] @ ascii '', id: 7})''))
     world0 = (Inr (ascii ''Snacks''), world0) \<and>
   \<not> category_occurs (ascii ''push({id: 7})'') (ascii ''Snacks'') \<and>
   category_field (Some (ascii ''push({id: 7})'')) world0 =
     (Inr (ascii ''no category''),
      world0\<lparr>log := [(WARNING, ascii ''category not found'')]\<rparr>)"
proof -
  define t1 where
    "t1 = ascii ''push({category: '' @ [34] @ ascii ''Snacks'' @ [34] @ ascii '', id: 7})''"
  define t2 where "t2 = ascii ''push({id: 7})''"
  have "t1 = ascii ''push({'' @ category_prefix @ ascii ''Snacks'' @ [34] @ ascii '', id: 7})''"
    by (simp add: t1_def category_prefix_def ascii_def)
  moreover have "ascii ''Snacks'' \<noteq> []" and "34 \<notin> set (ascii ''Snacks'')"
    by (simp_all add: ascii_def)
  ultimately have o1: "category_occurs t1 (ascii ''Snacks'')"
    unfolding category_occurs_def by blast
  then have "\<exists>v. category_occurs t1 v" by blast
  with category_field_extracts [of world0 t1]
  obtain v where v: "category_occurs t1 v" "category_field (Some t1) world0 = (Inr v, world0)"
    by blast
  have "re_search_category t1 = Some (ascii ''Snacks'')"
    by (simp add: t1_def ascii_def category_match_at_def category_prefix_def)
  then have "category_field (Some t1) world0 = (Inr (ascii ''Snacks''), world0)"
    by (rule category_field_Some)
  with v have a: "category_field (Some t1) world0 = (Inr (ascii ''Snacks''), world0)"
    by simp
  have "re_search_category t2 = None"
    by (simp add: t2_def ascii_def category_match_at_def category_prefix_def)
  then have n2: "\<nexists>v. category_occurs t2 v"
    using re_search_category_None by blast
  with category_field_extracts [of world0 t2]
  have c: "category_field (Some t2) world0 =
     (Inr (ascii ''no category''),
      world0\<lparr>log := log world0 @ [(WARNING, ascii ''category not found'')]\<rparr>)"
    by blast
  from o1 a n2 c show ?thesis
    unfolding t1_def [symmetric] t2_def [symmetric] by (simp add: world0_def)
qed

section \<open>Running a sequence of steps\<close>

lemma pbind_Inr: "m s = (Inr x, s') \<Longrightarrow> pbind m f s = f x s'"
  by (simp add: pbind_def)

lemma pbind_Inl: "m s = (Inl e, s') \<Longrightarrow> pbind m f s = (Inl e, s')"
  by (simp add: pbind_def)

lemma pbind_pret: "pbind (pret x) f s = f x s"
  by (simp add: pbind_def pret_def)

lemma plog_DEBUG: "plog DEBUG m s = (Inr (), s)"
  by (simp add: plog_def logger_log_def)

lemma handle_exceptions_Inr:
  "func s = (Inr v, s') \<Longrightarrow> handle_exceptions func s = (Inr (Some v), s')"
  by (simp add: handle_exceptions_def)

lemma handle_exceptions_transient:
  assumes "func s = (Inl e, s')" and "transient e"
  shows "\<exists>p. handle_exceptions func s =
           (Inr None, s'\<lparr>log := log s' @ [(ERROR, p @ str_of e)]\<rparr>)"
  using assms
  by (auto simp add: handle_exceptions_def transient_def transient_kinds_def logger_log_def)

lemma handle_exceptions_fatal:
  assumes "func s = (Inl e, s')" and "\<not> transient e" and "isinstance e PyException"
  shows "handle_exceptions func s =
           (Inl e, s'\<lparr>log := log s' @
              [(ERROR, ascii ''An unexpected error occurred: '' @ str_of e)]\<rparr>)"
  using assms
  by (simp add: handle_exceptions_def transient_def transient_kinds_def logger_log_def)



lemma transient_AttributeError: "transient (mk_exc AttributeError m)"
  by (simp add: transient_def transient_kinds_def isinstance_def mk_exc_def)

lemma pbind_InrE:
  assumes "pbind m f s = (Inr y, s')"
  obtains x s1 where "m s = (Inr x, s1)" and "f x s1 = (Inr y, s')"
  using assms by (auto simp add: pbind_def split: prod.splits sum.splits)


text \<open>The definitions a run on a concrete browser unfolds.\<close>

lemmas run_defs =
  pbind_def pret_def praise_def plog_def logger_log_def call_def sleep_def attr_of_def
  getitem_def str_add_def handle_exceptions_def ptry_except_def finally_return_def
  isinstance_def mk_exc_def wait_until_def wait_until_all_def find_element_def
  find_element_body_def click_element_def click_element_body_def close_driver_def
  close_driver_body_def go_next_page_def shop_def world0_def ascii_def

section \<open>find_element\<close>

lemma find_element_body_unrecognized:
  assumes "method \<notin> set recognized_strategies"
  shows "find_element_body br driver method loc s =
           (Inl (mk_exc AttributeError ''invalid name for parametr''), s)"
  using assms by (simp add: find_element_body_def recognized_strategies_def praise_def)

text \<open>
  C2, as the code has it.  For a strategy outside the recognised set the body of
  find_element raises AttributeError, which is one of the classes the wrapper
  around find_element contains: the call makes no request to the browser, adds
  one error record to the log and returns None to its caller.  Nothing is
  raised.
\<close>

theorem find_element_unrecognized_contained:
  assumes "method \<notin> set recognized_strategies"
  shows "find_element br driver method loc s =
           (Inr None,
            s\<lparr>log := log s @
               [(ERROR, ascii ''Webdriver exception: invalid name for parametr'')]\<rparr>)"
proof -
  have "find_element_body br driver method loc s =
          (Inl (mk_exc AttributeError ''invalid name for parametr''), s)"
    using assms by (rule find_element_body_unrecognized)
  then show ?thesis
    by (simp add: find_element_def handle_exceptions_def isinstance_def mk_exc_def
        logger_log_def ascii_def)
qed

theorem find_element_unrecognized_contained_witness:
  "ascii ''link_text'' \<notin> set recognized_strategies \<and>
   find_element (shop None False False) (Some (Driver 0)) (ascii ''link_text'') (ascii ''Next'')
     world0 =
     (Inr None,
      world0\<lparr>log := [(ERROR, ascii ''Webdriver exception: invalid name for parametr'')]\<rparr>)"
proof -
  have n: "ascii ''link_text'' \<notin> set recognized_strategies"
    by (simp add: recognized_strategies_def ascii_def)
  from find_element_unrecognized_contained [OF n, of "shop None False False"
      "Some (Driver 0)" "ascii ''Next''" world0]
  show ?thesis using n by (simp add: world0_def)
qed

text \<open>
  The strategy \<^verbatim>\<open>link_text\<close> is not recognised, and find_element returns None
  for it instead of raising.
\<close>

theorem find_element_unrecognized_counterexample:
  "ascii ''link_text'' \<notin> set recognized_strategies \<and>
   fst (find_element (shop None False False) (Some (Driver 0)) (ascii ''link_text'')
          (ascii ''Next'') world0) = Inr None"
  by (simp add: recognized_strategies_def ascii_def find_element_def find_element_body_def
      handle_exceptions_def praise_def isinstance_def mk_exc_def)

section \<open>go_next_page\<close>

lemma finally_return_fst: "fst (finally_return m v s) = Inr v"
  by (simp add: finally_return_def split: prod.splits)

lemma finally_return_snd: "snd (finally_return m v s) = snd (m s)"
  by (simp add: finally_return_def split: prod.splits)

lemma log_call: "log (snd (call c op s)) = log s"
  by (simp add: call_def split: prod.splits)

lemma log_next_click:
  "log (snd (ptry_except
          (pbind (getitem arrows 0) (\<lambda>arrow.
           pbind (call (ElemClick arrow) (element_click br arrow)) (\<lambda>_.
           plog DEBUG (ascii ''press next page''))))
          ElementNotInteractableException
          (plog DEBUG (ascii ''next page dosnt exist'')) s)) = log s"
proof (cases arrows)
  case Nil
  then show ?thesis
    by (simp add: ptry_except_def pbind_def getitem_def praise_def isinstance_def mk_exc_def)
next
  case (Cons arrow rest)
  obtain r b' where c: "element_click br arrow (browser s) = (r, b')"
    by (cases "element_click br arrow (browser s)")
  show ?thesis
    by (cases r)
       (simp_all add: Cons c ptry_except_def pbind_def getitem_def pret_def call_def
         plog_def logger_log_def)
qed

text \<open>
  C9, as the code has it.  Once \<^verbatim>\<open>driver.find_elements\<close> has returned a list,
  go_next_page returns the driver it was given and raises nothing, whatever the
  list and whatever clicking its first element does, and it writes nothing to
  the log.  The lookup itself is made before the \<^verbatim>\<open>try\<close>: when it raises,
  go_next_page raises the same exception.
\<close>

theorem go_next_page_returns_driver:
  "(driver_find_elements br d CLASS_NAME (ascii ''right_arrow'') (browser s) = (Inr arrows, b')
      \<longrightarrow> fst (go_next_page br (Some d) s) = Inr (Some d) \<and>
          log (snd (go_next_page br (Some d) s)) = log s) \<and>
   (driver_find_elements br d CLASS_NAME (ascii ''right_arrow'') (browser s) = (Inl e, b')
      \<longrightarrow> go_next_page br (Some d) s =
            (Inl e, s\<lparr>browser := b',
               calls := calls s @ [DriverFindElements d CLASS_NAME (ascii ''right_arrow'')]\<rparr>))"
proof (intro conjI impI)
  assume f: "driver_find_elements br d CLASS_NAME (ascii ''right_arrow'') (browser s) =
    (Inr arrows, b')"
  define s1 where "s1 = s\<lparr>browser := b',
    calls := calls s @ [DriverFindElements d CLASS_NAME (ascii ''right_arrow'')]\<rparr>"
  have g: "go_next_page br (Some d) s =
      finally_return
       (ptry_except
          (pbind (getitem arrows 0) (\<lambda>arrow.
           pbind (call (ElemClick arrow) (element_click br arrow)) (\<lambda>_.
           plog DEBUG (ascii ''press next page''))))
          ElementNotInteractableException
          (plog DEBUG (ascii ''next page dosnt exist'')))
       (Some d) s1"
    using f by (simp add: go_next_page_def attr_of_def pbind_def pret_def call_def s1_def)
  show "fst (go_next_page br (Some d) s) = Inr (Some d)"
    unfolding g by (rule finally_return_fst)
  have "log (snd (go_next_page br (Some d) s)) = log s1"
    unfolding g finally_return_snd by (rule log_next_click)
  then show "log (snd (go_next_page br (Some d) s)) = log s"
    by (simp add: s1_def)
next
  assume "driver_find_elements br d CLASS_NAME (ascii ''right_arrow'') (browser s) = (Inl e, b')"
  then show "go_next_page br (Some d) s =
            (Inl e, s\<lparr>browser := b',
               calls := calls s @ [DriverFindElements d CLASS_NAME (ascii ''right_arrow'')]\<rparr>)"
    by (simp add: go_next_page_def attr_of_def pbind_def pret_def call_def)
qed

theorem go_next_page_returns_driver_witness:
  "fst (go_next_page (shop None False False) (Some (Driver 0)) world0) = Inr (Some (Driver 0)) \<and>
   log (snd (go_next_page (shop None False False) (Some (Driver 0)) world0)) = [] \<and>
   fst (go_next_page (shop None False True) (Some (Driver 1)) world0) =
     Inl (mk_exc WebDriverException ''invalid session id'')"
proof -
  have a: "driver_find_elements (shop None False False) (Driver 0) CLASS_NAME
             (ascii ''right_arrow'') (browser world0) = (Inr [], ())"
    by (simp add: shop_def)
  have b: "driver_find_elements (shop None False True) (Driver 1) CLASS_NAME
             (ascii ''right_arrow'') (browser world0) =
             (Inl (mk_exc WebDriverException ''invalid session id''), ())"
    by (simp add: shop_def)
  from go_next_page_returns_driver [of "shop None False False" "Driver 0" world0 "[]" "()"] a
  have "fst (go_next_page (shop None False False) (Some (Driver 0)) world0) =
          Inr (Some (Driver 0)) \<and>
        log (snd (go_next_page (shop None False False) (Some (Driver 0)) world0)) = log world0"
    by blast
  moreover
  from go_next_page_returns_driver [of "shop None False True" "Driver 1" world0 _ "()"
      "mk_exc WebDriverException ''invalid session id''"] b
  have "fst (go_next_page (shop None False True) (Some (Driver 1)) world0) =
          Inl (mk_exc WebDriverException ''invalid session id'')"
    by simp
  ultimately show ?thesis by (simp add: world0_def)
qed

text \<open>
  A browser whose session has ended answers the lookup of the arrow with a
  WebDriverException, and go_next_page raises it.
\<close>

theorem go_next_page_lookup_counterexample:
  "fst (go_next_page (shop None False True) (Some (Driver 0)) world0) =
     Inl (mk_exc WebDriverException ''invalid session id'')"
  by (simp add: go_next_page_def attr_of_def pbind_def pret_def call_def shop_def world0_def)

section \<open>save_to_csv\<close>

lemma write_rows_appends:
  "files s name = Some old \<Longrightarrow> list_all row_encodable rows \<Longrightarrow>
   write_rows name rows s = (Inr (), s\<lparr>files := (files s)(name \<mapsto> old @ rows)\<rparr>)"
proof (induction rows arbitrary: s old)
  case Nil
  then have "(files s)(name \<mapsto> old) = files s" by (simp add: map_upd_triv)
  then show ?case by (simp add: pret_def)
next
  case (Cons row rows)
  define s1 where "s1 = s\<lparr>files := (files s)(name \<mapsto> old @ [row])\<rparr>"
  from Cons.prems have enc: "row_encodable row" and rest: "list_all row_encodable rows"
    by simp_all
  have w: "writerow name row s = (Inr (), s1)"
    using Cons.prems(1) enc by (simp add: writerow_def s1_def)
  have "files s1 name = Some (old @ [row])" by (simp add: s1_def)
  from Cons.IH [OF this rest]
  have i: "write_rows name rows s1 =
          (Inr (), s1\<lparr>files := (files s1)(name \<mapsto> (old @ [row]) @ rows)\<rparr>)" .
  have r: "write_rows name (row # rows) s = write_rows name rows s1"
    by (simp add: pbind_def w)
  have u: "s1\<lparr>files := (files s1)(name \<mapsto> (old @ [row]) @ rows)\<rparr> =
           s\<lparr>files := (files s)(name \<mapsto> old @ row # rows)\<rparr>"
    by (simp add: s1_def)
  show ?case by (simp only: r i u)
qed

lemma write_rows_unencodable:
  "files s name = Some old \<Longrightarrow> list_all row_encodable good \<Longrightarrow> \<not> row_encodable bad \<Longrightarrow>
   write_rows name (good @ bad # rest) s =
     (Inl unicode_encode_error, s\<lparr>files := (files s)(name \<mapsto> old @ good)\<rparr>)"
proof (induction good arbitrary: s old)
  case Nil
  then have "(files s)(name \<mapsto> old) = files s" by (simp add: map_upd_triv)
  with Nil show ?case by (simp add: pbind_def writerow_def)
next
  case (Cons row good)
  define s1 where "s1 = s\<lparr>files := (files s)(name \<mapsto> old @ [row])\<rparr>"
  from Cons.prems have enc: "row_encodable row" and g: "list_all row_encodable good"
    by simp_all
  have w: "writerow name row s = (Inr (), s1)"
    using Cons.prems(1) enc by (simp add: writerow_def s1_def)
  have "files s1 name = Some (old @ [row])" by (simp add: s1_def)
  from Cons.IH [OF this g Cons.prems(3)]
  have i: "write_rows name (good @ bad # rest) s1 =
          (Inl unicode_encode_error,
           s1\<lparr>files := (files s1)(name \<mapsto> (old @ [row]) @ good)\<rparr>)" .
  have r: "write_rows name ((row # good) @ bad # rest) s =
      write_rows name (good @ bad # rest) s1"
    by (simp add: pbind_def w)
  have u: "s1\<lparr>files := (files s1)(name \<mapsto> (old @ [row]) @ good)\<rparr> =
           s\<lparr>files := (files s)(name \<mapsto> old @ row # good)\<rparr>"
    by (simp add: s1_def)
  show ?case by (simp only: r i u)
qed

lemma row_encodable_header: "row_encodable header"
  by (simp add: row_encodable_def utf8_encodable_def is_surrogate_def header_def)

lemma save_to_csv_body_Some:
  assumes "list_all row_encodable rows"
  shows "save_to_csv_body (Some rows) s =
     (Inr (), s\<lparr>files := (files s)(csv_file \<mapsto> header # rows)\<rparr>)"
proof -
  define s1 where "s1 = s\<lparr>files := (files s)(csv_file \<mapsto> [header])\<rparr>"
  have h: "pbind (open_w csv_file) (\<lambda>_. writerow csv_file header) s = (Inr (), s1)"
    by (simp add: pbind_def open_w_def writerow_def row_encodable_header s1_def)
  have "files s1 csv_file = Some [header]" by (simp add: s1_def)
  then have w: "write_rows csv_file rows s1 =
      (Inr (), s1\<lparr>files := (files s1)(csv_file \<mapsto> [header] @ rows)\<rparr>)"
    using assms by (rule write_rows_appends)
  have "save_to_csv_body (Some rows) s = write_rows csv_file rows s1"
    using h by (simp add: save_to_csv_body_def pbind_def open_w_def writerow_def
        row_encodable_header s1_def)
  with w show ?thesis by (simp add: s1_def)
qed

text \<open>
  A record with a field that utf-8 cannot encode stops the writing: the rows
  before it are in the file, the UnicodeEncodeError is none of the contained
  kinds, so the wrapper logs it and raises it again.
\<close>

lemma save_to_csv_unencodable:
  assumes "list_all row_encodable good" and "\<not> row_encodable bad"
  shows "fst (save_to_csv (Some (good @ bad # rest)) s) = Inl unicode_encode_error \<and>
         files (snd (save_to_csv (Some (good @ bad # rest)) s)) csv_file = Some (header # good)"
proof -
  define s1 where "s1 = s\<lparr>files := (files s)(csv_file \<mapsto> [header])\<rparr>"
  have "files s1 csv_file = Some [header]" by (simp add: s1_def)
  then have w: "write_rows csv_file (good @ bad # rest) s1 =
      (Inl unicode_encode_error,
       s1\<lparr>files := (files s1)(csv_file \<mapsto> [header] @ good)\<rparr>)"
    using assms by (rule write_rows_unencodable)
  have "save_to_csv_body (Some (good @ bad # rest)) s =
      write_rows csv_file (good @ bad # rest) s1"
    by (simp add: save_to_csv_body_def pbind_def open_w_def writerow_def
        row_encodable_header s1_def)
  with w have b: "save_to_csv_body (Some (good @ bad # rest)) s =
      (Inl unicode_encode_error,
       s1\<lparr>files := (files s1)(csv_file \<mapsto> [header] @ good)\<rparr>)"
    by simp
  have n: "\<not> transient unicode_encode_error" "isinstance unicode_encode_error PyException"
    by (simp_all add: transient_def transient_kinds_def isinstance_def unicode_encode_error_def)
  from handle_exceptions_fatal
    [of "save_to_csv_body (Some (good @ bad # rest))" s unicode_encode_error
        "s1\<lparr>files := (files s1)(csv_file \<mapsto> [header] @ good)\<rparr>"] b n
  show ?thesis by (simp add: save_to_csv_def s1_def)
qed

text \<open>
  C6, on the code.  For every list of records that the file's encoding can
  write (no field holds a surrogate code point) save_to_csv returns normally and
  leaves in \<^verbatim>\<open>products.csv\<close>, whatever the file held before, the header row
  followed by the records in their order.  The header row of the code agrees
  with the one of the specification in its first five names and differs from it
  in the sixth, which the code writes without the space between its second and
  third word.
\<close>

theorem save_to_csv_writes_header_then_rows:
  assumes "list_all row_encodable rows"
  shows "save_to_csv (Some rows) s =
     (Inr (Some ()), s\<lparr>files := (files s)(csv_file \<mapsto> header # rows)\<rparr>) \<and>
   length header = 6 \<and>
   take 5 header = take 5 spec_header \<and>
   header ! 5 \<noteq> spec_header ! 5 \<and>
   header \<noteq> spec_header"
proof -
  have "save_to_csv_body (Some rows) s =
     (Inr (), s\<lparr>files := (files s)(csv_file \<mapsto> header # rows)\<rparr>)"
    using assms by (rule save_to_csv_body_Some)
  then have "save_to_csv (Some rows) s =
     (Inr (Some ()), s\<lparr>files := (files s)(csv_file \<mapsto> header # rows)\<rparr>)"
    unfolding save_to_csv_def by (rule handle_exceptions_Inr)
  then show ?thesis by (simp add: header_def spec_header_def)
qed

theorem save_to_csv_writes_header_then_rows_witness:
  "list_all row_encodable [shop_row, [Some (ascii ''Tea''), None]] \<and>
   fst (save_to_csv (Some [shop_row, [Some (ascii ''Tea''), None]]) world0) = Inr (Some ()) \<and>
   files (snd (save_to_csv (Some [shop_row, [Some (ascii ''Tea''), None]]) world0)) csv_file =
     Some [header, shop_row, [Some (ascii ''Tea''), None]] \<and>
   header ! 5 \<noteq> spec_header ! 5"
proof -
  have e: "list_all row_encodable [shop_row, [Some (ascii ''Tea''), None]]"
    by (simp add: row_encodable_def utf8_encodable_def is_surrogate_def shop_row_def
        URL_MAIN_def ascii_def)
  from save_to_csv_writes_header_then_rows [OF e, of world0] e
  show ?thesis by simp
qed

text \<open>
  C10.  Given \<^verbatim>\<open>None\<close>, save_to_csv raises nothing: it truncates the file,
  writes the header row, and the TypeError of iterating \<^verbatim>\<open>None\<close> is logged by
  the wrapper, which returns None.  The file then holds the header row and
  nothing else, whatever it held before.
\<close>

theorem save_to_csv_None_writes_header_only:
  "save_to_csv None s =
     (Inr None,
      s\<lparr>files := (files s)(csv_file \<mapsto> [header]),
        log := log s @ [(ERROR, ascii ''Webdriver exception: '' @ str_of none_not_iterable)]\<rparr>)"
  by (simp add: save_to_csv_def save_to_csv_body_def handle_exceptions_def pbind_def
      open_w_def writerow_def row_encodable_header praise_def none_not_iterable_def
      isinstance_def logger_log_def)

section \<open>select_delivery_address\<close>





section \<open>The loops of parse_products\<close>

subsection \<open>A fault leaves every loop\<close>

lemma cards_loop_append:
  "cards_loop br driver before acc s0 = (Inr acc1, s1) \<Longrightarrow>
   cards_loop br driver (before @ rest) acc s0 = cards_loop br driver rest acc1 s1"
proof (induction before arbitrary: acc s0)
  case Nil
  then show ?case by (simp add: pret_def)
next
  case (Cons c before)
  from Cons.prems obtain lst sa sb where
    e: "extract_card br driver c s0 = (Inr lst, sa)" and
    l: "plog INFO (ascii ''products added to main list'') sa = (Inr (), sb)" and
    r: "cards_loop br driver before (acc @ [lst]) sb = (Inr acc1, s1)"
    by (auto elim!: pbind_InrE)
  have "cards_loop br driver ((c # before) @ rest) acc s0 =
        cards_loop br driver (before @ rest) (acc @ [lst]) sb"
    by (simp add: pbind_def e l)
  with Cons.IH [OF r] show ?case by simp
qed

lemma cards_loop_fault:
  "extract_card br driver c s1 = (Inl e, s2) \<Longrightarrow>
   cards_loop br driver (c # rest) acc s1 = (Inl e, s2)"
  by (simp add: pbind_def)

lemma page_body_fault:
  "find_cards br driver s = (Inr cards, s4) \<Longrightarrow>
   cards_loop br driver cards acc s4 = (Inl e, s6) \<Longrightarrow>
   page_body br driver acc s = (Inl e, s6)"
  by (simp add: page_body_def pbind_def plog_DEBUG)

lemma pages_loop_add:
  "pages_loop br k driver acc s = (Inr (d', acc'), s') \<Longrightarrow>
   pages_loop br (k + m) driver acc s = pages_loop br m d' acc' s'"
proof (induction k arbitrary: driver acc s)
  case 0
  then show ?case by (simp add: pret_def)
next
  case (Suc k)
  from Suc.prems obtain d1 a1 s1 where
    p: "page_body br driver acc s = (Inr (d1, a1), s1)" and
    r: "pages_loop br k d1 a1 s1 = (Inr (d', acc'), s')"
    by (auto elim!: pbind_InrE)
  have "pages_loop br (Suc k + m) driver acc s = pages_loop br (k + m) d1 a1 s1"
    by (simp add: pbind_def p)
  with Suc.IH [OF r] show ?case by simp
qed

lemma pages_loop_fault:
  "page_body br driver acc s = (Inl e, s') \<Longrightarrow>
   pages_loop br (Suc m) driver acc s = (Inl e, s')"
  by (simp add: pbind_def)

lemma category_body_fault:
  "category_enter br driver cat s = (Inr (), s2) \<Longrightarrow>
   pages_loop br n driver acc s2 = (Inl e, s') \<Longrightarrow>
   category_body br n driver cat acc s = (Inl e, s')"
  by (simp add: category_body_def pbind_def)

lemma categories_loop_append:
  "categories_loop br n driver cs1 acc s = (Inr (d', acc'), s') \<Longrightarrow>
   categories_loop br n driver (cs1 @ cs2) acc s = categories_loop br n d' cs2 acc' s'"
proof (induction cs1 arbitrary: driver acc s)
  case Nil
  then show ?case by (simp add: pret_def)
next
  case (Cons c cs1)
  from Cons.prems obtain d1 a1 s1 where
    p: "category_body br n driver c acc s = (Inr (d1, a1), s1)" and
    r: "categories_loop br n d1 cs1 a1 s1 = (Inr (d', acc'), s')"
    by (auto elim!: pbind_InrE)
  have "categories_loop br n driver ((c # cs1) @ cs2) acc s =
        categories_loop br n d1 (cs1 @ cs2) a1 s1"
    by (simp add: pbind_def p)
  with Cons.IH [OF r] show ?case by simp
qed

lemma categories_loop_fault:
  "category_body br n driver cat acc s = (Inl e, s') \<Longrightarrow>
   categories_loop br n driver (cat # rest) acc s = (Inl e, s')"
  by (simp add: pbind_def)

lemma parse_products_body_fault:
  "categories_loop br (nat pages) driver cats [] s = (Inl e, s') \<Longrightarrow>
   parse_products_body br driver cats pages s = (Inl e, s')"
  by (simp add: parse_products_body_def pbind_def)

lemma card_fault_propagates:
  assumes "categories_loop br (nat pages) driver cats0 [] s = (Inr (d1, acc1), s1)"
    and "category_enter br d1 cat s1 = (Inr (), s2)"
    and "k < nat pages"
    and "pages_loop br k d1 acc1 s2 = (Inr (d2, acc2), s3)"
    and "find_cards br d2 s3 = (Inr (before @ c # after), s4)"
    and "cards_loop br d2 before acc2 s4 = (Inr acc3, s5)"
    and "extract_card br d2 c s5 = (Inl e, s6)"
  shows "categories_loop br (nat pages) driver (cats0 @ cat # rest) [] s = (Inl e, s6)"
proof -
  have "cards_loop br d2 (c # after) acc3 s5 = (Inl e, s6)"
    using assms(7) by (rule cards_loop_fault)
  moreover have "cards_loop br d2 (before @ c # after) acc2 s4 =
      cards_loop br d2 (c # after) acc3 s5"
    using assms(6) by (rule cards_loop_append)
  ultimately have "cards_loop br d2 (before @ c # after) acc2 s4 = (Inl e, s6)"
    by (simp only:)
  with assms(5) have "page_body br d2 acc2 s3 = (Inl e, s6)"
    by (rule page_body_fault)
  then have pl: "pages_loop br (Suc m) d2 acc2 s3 = (Inl e, s6)" for m
    by (rule pages_loop_fault)
  define m where "m = nat pages - Suc k"
  have m: "nat pages = k + Suc m"
    using assms(3) unfolding m_def by arith
  have "pages_loop br (k + Suc m) d1 acc1 s2 = pages_loop br (Suc m) d2 acc2 s3"
    using assms(4) by (rule pages_loop_add)
  with pl [of m] have "pages_loop br (nat pages) d1 acc1 s2 = (Inl e, s6)"
    by (simp only: m)
  with assms(2) have "category_body br (nat pages) d1 cat acc1 s1 = (Inl e, s6)"
    by (rule category_body_fault)
  then have "categories_loop br (nat pages) d1 (cat # rest) acc1 s1 = (Inl e, s6)"
    by (rule categories_loop_fault)
  moreover have "categories_loop br (nat pages) driver (cats0 @ cat # rest) [] s =
      categories_loop br (nat pages) d1 (cat # rest) acc1 s1"
    using assms(1) by (rule categories_loop_append)
  ultimately show ?thesis
    by (simp only:)
qed

subsection \<open>The shop with a stale second card\<close>

lemmas shop_run_defs =
  run_defs extract_card_def category_field_def price_field_def price_text_def strip_def
  slice_to_minus_def isspace_def re_search_category.simps category_match_at_def
  category_prefix_def find_cards_def category_enter_def category_xpath_def URL_MAIN_def

lemma transient_stale_exc: "transient stale_exc"
  by (simp add: stale_exc_def transient_def transient_kinds_def isinstance_def mk_exc_def)

lemma shop_category_enter:
  "fst (category_enter (shop st False False) (Some (Driver 0)) cat s) = Inr ()"
  "calls (snd (category_enter (shop st False False) (Some (Driver 0)) cat s)) =
     calls s @
     [DriverGet (Driver 0) URL_MAIN,
      WaitUntil (Driver 0) 10 (presence_of_element_located XPATH (category_xpath cat)),
      ActionsMoveClickPerform (Driver 0) (Element 8),
      DriverImplicitlyWait (Driver 0) 15]"
  by (simp_all add: category_enter_def run_defs)

lemma shop_find_cards:
  "fst (find_cards (shop st False False) (Some (Driver 0)) s) =
     Inr ([Element 1] @ Element 2 # [Element 3])"
  "calls (snd (find_cards (shop st False False) (Some (Driver 0)) s)) =
     calls s @
     [WaitUntil (Driver 0) 10
        (presence_of_all_elements_located CLASS_NAME (ascii ''product.ok-theme''))]"
  by (simp_all add: find_cards_def run_defs)

lemma shop_extract_stale:
  "fst (extract_card (shop (Some c) False False) (Some (Driver 0)) c s) = Inl stale_exc"
  "calls (snd (extract_card (shop (Some c) False False) (Some (Driver 0)) c s)) =
     calls s @ [ElemFindElement c TAG_NAME (ascii ''a'')]"
  by (simp_all add: extract_card_def stale_exc_def run_defs)

subsection \<open>Who calls \<^verbatim>\<open>driver.close()\<close>\<close>






























subsection \<open>The driver handed through the loops\<close>








subsection \<open>Runs on the shop\<close>

lemma fst_collapse: "fst p = a \<Longrightarrow> p = (a, snd p)"
  by (cases p) simp

lemma cards_loop_one:
  "extract_card br driver c s = (Inr row, s1) \<Longrightarrow>
   cards_loop br driver [c] acc s =
     (Inr (acc @ [row]), logger_log INFO (ascii ''products added to main list'') s1)"
  by (simp add: pbind_def plog_def pret_def)


lemma shop_extract_first:
  "fst (extract_card (shop (Some (Element 2)) False False) (Some (Driver 0)) (Element 1) s) =
     Inr shop_row"
  "calls (snd (extract_card (shop (Some (Element 2)) False False) (Some (Driver 0))
     (Element 1) s)) =
     calls s @
     [ElemFindElement (Element 1) TAG_NAME (ascii ''a''),
      ElemText (Element 11),
      ElemGetAttribute (Element 11) (ascii ''href''),
      ElemFindElement (Element 1) TAG_NAME (ascii ''img''),
      ElemGetAttribute (Element 12) (ascii ''data-src''),
      ElemFindElement (Element 1) TAG_NAME (ascii ''script''),
      DriverExecuteScript (Driver 0) (ascii ''return arguments[0].innerHTML;'') (Element 13),
      ElemFindElement (Element 1) CLASS_NAME (ascii ''product-price''),
      ElemFindElements (Element 14) TAG_NAME (ascii ''span''),
      ElemGetAttribute (Element 1401) (ascii ''textContent''),
      ElemGetAttribute (Element 1402) (ascii ''textContent'')]"
  by (simp_all add: shop_run_defs shop_row_def)

lemma shop_cards_loop_first:
  "fst (cards_loop (shop (Some (Element 2)) False False) (Some (Driver 0)) [Element 1] [] s) =
     Inr [shop_row]"
  "calls (snd (cards_loop (shop (Some (Element 2)) False False) (Some (Driver 0))
     [Element 1] [] s)) =
   calls (snd (extract_card (shop (Some (Element 2)) False False) (Some (Driver 0))
     (Element 1) s))"
proof -
  have e: "extract_card (shop (Some (Element 2)) False False) (Some (Driver 0)) (Element 1) s =
      (Inr shop_row, snd (extract_card (shop (Some (Element 2)) False False)
         (Some (Driver 0)) (Element 1) s))"
    by (rule fst_collapse) (rule shop_extract_first)
  note c = cards_loop_one [OF e, of "[]"]
  show "fst (cards_loop (shop (Some (Element 2)) False False) (Some (Driver 0))
      [Element 1] [] s) = Inr [shop_row]"
    unfolding c by simp
  show "calls (snd (cards_loop (shop (Some (Element 2)) False False) (Some (Driver 0))
     [Element 1] [] s)) =
   calls (snd (extract_card (shop (Some (Element 2)) False False) (Some (Driver 0))
     (Element 1) s))"
    unfolding c by (simp add: logger_log_def)
qed

text \<open>
  The run on the shop whose second card is stale, up to the fault: the category
  is entered, the three cards are found, the first is extracted, the second
  raises.
\<close>

lemma stale_shop_steps:
  obtains s2 s4 s5 s6 where
    "category_enter (shop (Some (Element 2)) False False) (Some (Driver 0)) cat world0 =
       (Inr (), s2)"
    "find_cards (shop (Some (Element 2)) False False) (Some (Driver 0)) s2 =
       (Inr ([Element 1] @ Element 2 # [Element 3]), s4)"
    "cards_loop (shop (Some (Element 2)) False False) (Some (Driver 0)) [Element 1] [] s4 =
       (Inr [shop_row], s5)"
    "extract_card (shop (Some (Element 2)) False False) (Some (Driver 0)) (Element 2) s5 =
       (Inl stale_exc, s6)"
    "ElemFindElement (Element 1) TAG_NAME (ascii ''a'') \<in> set (calls s6)"
    "ElemFindElement (Element 3) TAG_NAME (ascii ''a'') \<notin> set (calls s6)"
    "close_calls s6 = 0"
proof -
  define br where "br = shop (Some (Element 2)) False False"
  define s2 where "s2 = snd (category_enter br (Some (Driver 0)) cat world0)"
  define s4 where "s4 = snd (find_cards br (Some (Driver 0)) s2)"
  define s5 where "s5 = snd (cards_loop br (Some (Driver 0)) [Element 1] [] s4)"
  define s6 where "s6 = snd (extract_card br (Some (Driver 0)) (Element 2) s5)"
  have h2: "category_enter br (Some (Driver 0)) cat world0 = (Inr (), s2)"
    unfolding s2_def br_def by (rule fst_collapse) (rule shop_category_enter)
  have h5: "find_cards br (Some (Driver 0)) s2 = (Inr ([Element 1] @ Element 2 # [Element 3]), s4)"
    unfolding s4_def br_def by (rule fst_collapse) (rule shop_find_cards)
  have h6: "cards_loop br (Some (Driver 0)) [Element 1] [] s4 = (Inr [shop_row], s5)"
    unfolding s5_def br_def by (rule fst_collapse) (rule shop_cards_loop_first)
  have h7: "extract_card br (Some (Driver 0)) (Element 2) s5 = (Inl stale_exc, s6)"
    unfolding s6_def br_def by (rule fst_collapse) (rule shop_extract_stale)
  have c2: "calls s2 =
     [DriverGet (Driver 0) URL_MAIN,
      WaitUntil (Driver 0) 10 (presence_of_element_located XPATH (category_xpath cat)),
      ActionsMoveClickPerform (Driver 0) (Element 8),
      DriverImplicitlyWait (Driver 0) 15]"
    unfolding s2_def br_def by (simp add: shop_category_enter world0_def)
  have c4: "calls s4 = calls s2 @
     [WaitUntil (Driver 0) 10
        (presence_of_all_elements_located CLASS_NAME (ascii ''product.ok-theme''))]"
    unfolding s4_def br_def by (rule shop_find_cards)
  have c5: "calls s5 = calls s4 @
     [ElemFindElement (Element 1) TAG_NAME (ascii ''a''),
      ElemText (Element 11),
      ElemGetAttribute (Element 11) (ascii ''href''),
      ElemFindElement (Element 1) TAG_NAME (ascii ''img''),
      ElemGetAttribute (Element 12) (ascii ''data-src''),
      ElemFindElement (Element 1) TAG_NAME (ascii ''script''),
      DriverExecuteScript (Driver 0) (ascii ''return arguments[0].innerHTML;'') (Element 13),
      ElemFindElement (Element 1) CLASS_NAME (ascii ''product-price''),
      ElemFindElements (Element 14) TAG_NAME (ascii ''span''),
      ElemGetAttribute (Element 1401) (ascii ''textContent''),
      ElemGetAttribute (Element 1402) (ascii ''textContent'')]"
    unfolding s5_def br_def by (simp only: shop_cards_loop_first shop_extract_first)
  have c6: "calls s6 = calls s5 @ [ElemFindElement (Element 2) TAG_NAME (ascii ''a'')]"
    unfolding s6_def br_def by (rule shop_extract_stale)
  have m1: "ElemFindElement (Element 1) TAG_NAME (ascii ''a'') \<in> set (calls s6)"
    by (simp add: c6 c5)
  have m3: "ElemFindElement (Element 3) TAG_NAME (ascii ''a'') \<notin> set (calls s6)"
    by (simp add: c6 c5 c4 c2)
  have cc: "close_calls s6 = 0"
    by (simp add: close_calls_def c6 c5 c4 c2)
  from that [OF h2 [unfolded br_def] h5 [unfolded br_def] h6 [unfolded br_def]
      h7 [unfolded br_def] m1 m3 cc]
  show ?thesis .
qed

lemma stale_shop_categories_loop:
  assumes "0 < pages"
  obtains s6 where
    "categories_loop (shop (Some (Element 2)) False False) (nat pages) (Some (Driver 0))
       (cat # rest) [] world0 = (Inl stale_exc, s6)"
    "ElemFindElement (Element 1) TAG_NAME (ascii ''a'') \<in> set (calls s6)"
    "ElemFindElement (Element 3) TAG_NAME (ascii ''a'') \<notin> set (calls s6)"
    "close_calls s6 = 0"
proof -
  obtain s2 s4 s5 s6 where
    h2: "category_enter (shop (Some (Element 2)) False False) (Some (Driver 0)) cat world0 =
       (Inr (), s2)" and
    h5: "find_cards (shop (Some (Element 2)) False False) (Some (Driver 0)) s2 =
       (Inr ([Element 1] @ Element 2 # [Element 3]), s4)" and
    h6: "cards_loop (shop (Some (Element 2)) False False) (Some (Driver 0)) [Element 1] [] s4 =
       (Inr [shop_row], s5)" and
    h7: "extract_card (shop (Some (Element 2)) False False) (Some (Driver 0)) (Element 2) s5 =
       (Inl stale_exc, s6)" and
    m: "ElemFindElement (Element 1) TAG_NAME (ascii ''a'') \<in> set (calls s6)"
       "ElemFindElement (Element 3) TAG_NAME (ascii ''a'') \<notin> set (calls s6)"
       "close_calls s6 = 0"
    by (rule stale_shop_steps)
  have h1: "categories_loop (shop (Some (Element 2)) False False) (nat pages)
      (Some (Driver 0)) [] [] world0 = (Inr (Some (Driver 0), []), world0)"
    by (simp add: pret_def)
  have h3: "0 < nat pages" using assms by simp
  have h4: "pages_loop (shop (Some (Element 2)) False False) 0 (Some (Driver 0)) [] s2 =
      (Inr (Some (Driver 0), []), s2)"
    by (simp add: pret_def)
  from card_fault_propagates [OF h1 h2 h3 h4 h5 h6 h7, of rest]
  have "categories_loop (shop (Some (Element 2)) False False) (nat pages) (Some (Driver 0))
       (cat # rest) [] world0 = (Inl stale_exc, s6)"
    by simp
  from that [OF this m] show ?thesis .
qed







section \<open>A fault while a card is extracted\<close>

text \<open>
  C3, as the code has it.  Containment in parse_products is per call, not per
  card.  Take any run in which the categories \<open>cats0\<close> are done, the
  category \<open>cat\<close> has been entered, \<open>k\<close> of its pages are done, the next page
  shows the cards \<open>before @ c # after\<close>, the cards \<open>before\<close> have been
  extracted, and the extraction of the card \<open>c\<close> raises a transient fault (a
  stale reference, say) in the state \<open>s6\<close>.  Then parse_products returns
  None, so no record is kept, those of the cards before \<open>c\<close> included; all it
  does after the fault is to log one error, so no card after \<open>c\<close> is
  attempted and no further call is made on the browser.
\<close>

theorem parse_products_card_fault_aborts:
  assumes "categories_loop br (nat pages) driver cats0 [] s = (Inr (d1, acc1), s1)"
    and "category_enter br d1 cat s1 = (Inr (), s2)"
    and "k < nat pages"
    and "pages_loop br k d1 acc1 s2 = (Inr (d2, acc2), s3)"
    and "find_cards br d2 s3 = (Inr (before @ c # after), s4)"
    and "cards_loop br d2 before acc2 s4 = (Inr acc3, s5)"
    and "extract_card br d2 c s5 = (Inl e, s6)"
    and "transient e"
  shows "\<exists>p. parse_products br driver (cats0 @ cat # rest) pages s =
           (Inr None, s6\<lparr>log := log s6 @ [(ERROR, p @ str_of e)]\<rparr>)"
proof -
  have "categories_loop br (nat pages) driver (cats0 @ cat # rest) [] s = (Inl e, s6)"
    using assms(1-7) by (rule card_fault_propagates)
  then have "parse_products_body br driver (cats0 @ cat # rest) pages s = (Inl e, s6)"
    by (rule parse_products_body_fault)
  then show ?thesis
    unfolding parse_products_def using assms(8) by (rule handle_exceptions_transient)
qed

theorem parse_products_card_fault_aborts_witness:
  "fst (parse_products (shop (Some (Element 2)) False False) (Some (Driver 0))
          [ascii ''Snacks''] 1 world0) = Inr None"
proof -
  obtain s2 s4 s5 s6 where
    h2: "category_enter (shop (Some (Element 2)) False False) (Some (Driver 0))
       (ascii ''Snacks'') world0 = (Inr (), s2)" and
    h5: "find_cards (shop (Some (Element 2)) False False) (Some (Driver 0)) s2 =
       (Inr ([Element 1] @ Element 2 # [Element 3]), s4)" and
    h6: "cards_loop (shop (Some (Element 2)) False False) (Some (Driver 0)) [Element 1] [] s4 =
       (Inr [shop_row], s5)" and
    h7: "extract_card (shop (Some (Element 2)) False False) (Some (Driver 0)) (Element 2) s5 =
       (Inl stale_exc, s6)"
    by (rule stale_shop_steps)
  have h1: "categories_loop (shop (Some (Element 2)) False False) (nat 1)
      (Some (Driver 0)) [] [] world0 = (Inr (Some (Driver 0), []), world0)"
    by (simp add: pret_def)
  have h3: "(0::nat) < nat 1" by simp
  have h4: "pages_loop (shop (Some (Element 2)) False False) 0 (Some (Driver 0)) [] s2 =
      (Inr (Some (Driver 0), []), s2)"
    by (simp add: pret_def)
  from parse_products_card_fault_aborts [OF h1 h2 h3 h4 h5 h6 h7 transient_stale_exc, of "[]"]
  obtain p where "parse_products (shop (Some (Element 2)) False False) (Some (Driver 0))
      ([] @ [ascii ''Snacks'']) 1 world0 =
      (Inr None, s6\<lparr>log := log s6 @ [(ERROR, p @ str_of stale_exc)]\<rparr>)"
    by (elim exE)
  then show ?thesis by simp
qed

text \<open>
  One category, a page of three cards, the second of them stale.  The call
  returns None, so the record of the first card is lost, and the third card is
  never looked at, although the first was.
\<close>

theorem parse_products_card_fault_counterexample:
  "fst (parse_products (shop (Some (Element 2)) False False) (Some (Driver 0))
          [ascii ''Chips''] 2 world0) = Inr None \<and>
   ElemFindElement (Element 1) TAG_NAME (ascii ''a'') \<in>
     set (calls (snd (parse_products (shop (Some (Element 2)) False False) (Some (Driver 0))
          [ascii ''Chips''] 2 world0))) \<and>
   ElemFindElement (Element 3) TAG_NAME (ascii ''a'') \<notin>
     set (calls (snd (parse_products (shop (Some (Element 2)) False False) (Some (Driver 0))
          [ascii ''Chips''] 2 world0)))"
proof -
  have "(0::int) < 2" by simp
  then obtain s6 where
    c: "categories_loop (shop (Some (Element 2)) False False) (nat 2) (Some (Driver 0))
       (ascii ''Chips'' # []) [] world0 = (Inl stale_exc, s6)" and
    m1: "ElemFindElement (Element 1) TAG_NAME (ascii ''a'') \<in> set (calls s6)" and
    m3: "ElemFindElement (Element 3) TAG_NAME (ascii ''a'') \<notin> set (calls s6)"
    by (rule stale_shop_categories_loop)
  from c have "parse_products_body (shop (Some (Element 2)) False False) (Some (Driver 0))
      [ascii ''Chips''] 2 world0 = (Inl stale_exc, s6)"
    by (rule parse_products_body_fault)
  then have "\<exists>p. parse_products (shop (Some (Element 2)) False False) (Some (Driver 0))
      [ascii ''Chips''] 2 world0 =
      (Inr None, s6\<lparr>log := log s6 @ [(ERROR, p @ str_of stale_exc)]\<rparr>)"
    unfolding parse_products_def using transient_stale_exc by (rule handle_exceptions_transient)
  then obtain p where "parse_products (shop (Some (Element 2)) False False) (Some (Driver 0))
      [ascii ''Chips''] 2 world0 =
      (Inr None, s6\<lparr>log := log s6 @ [(ERROR, p @ str_of stale_exc)]\<rparr>)"
    by (elim exE)
  with m1 m3 show ?thesis by simp
qed

section \<open>Closing the session\<close>






end
